theory Spec2Isabelle
  imports Main "HOL-Library.Char_ord" "HOL-Library.List_Lexorder"
begin

section \<open>Wallet utility core (lib/common/utils.js)\<close>

text \<open>
  The functions of \<^verbatim>\<open>Utils\<close> are embedded as HOL functions. What a function takes
  from another module is an explicit argument:
  \<^item> a collaborator library (the bitcoin library, sjcl) is a record of the operations
    that are called, and json-stable-stringify is its one function; an operation that
    can throw returns an option, \<open>None\<close> standing for the exception;
  \<^item> \<^verbatim>\<open>Constants\<close> and \<^verbatim>\<open>Defaults\<close> are records of the values the functions read.
  A failure of the code itself is a value of \<open>error\<close>: \<^verbatim>\<open>$.checkArgument\<close> gives
  \<open>ArgumentError\<close>, \<^verbatim>\<open>$.checkState\<close> gives \<open>StateError\<close>, reading a property of
  \<^verbatim>\<open>undefined\<close> gives \<open>TypeError\<close>, and an exception of a collaborator that the
  code does not catch gives \<open>LibraryError\<close>.
\<close>

datatype error = ArgumentError | StateError | TypeError | LibraryError

subsection \<open>JavaScript numbers and arrays, as far as the code uses them\<close>

text \<open>
  Amounts are integers in the range where JavaScript's doubles are exact; \<open>NaN\<close> is
  what unary plus gives for a missing value. Every comparison with \<open>NaN\<close> is false.
\<close>

datatype jsnum = Num int | NaN

fun to_number :: "int option \<Rightarrow> jsnum" where
  "to_number None = NaN"
| "to_number (Some n) = Num n"

fun js_add :: "jsnum \<Rightarrow> jsnum \<Rightarrow> jsnum" where
  "js_add (Num a) (Num b) = Num (a + b)"
| "js_add _ _ = NaN"

fun js_sub :: "jsnum \<Rightarrow> jsnum \<Rightarrow> jsnum" where
  "js_sub (Num a) (Num b) = Num (a - b)"
| "js_sub _ _ = NaN"

fun js_ge :: "jsnum \<Rightarrow> jsnum \<Rightarrow> bool" where
  "js_ge (Num a) (Num b) = (a \<ge> b)"
| "js_ge _ _ = False"

fun js_le :: "jsnum \<Rightarrow> jsnum \<Rightarrow> bool" where
  "js_le (Num a) (Num b) = (a \<le> b)"
| "js_le _ _ = False"

text \<open>\<^verbatim>\<open>xs[i]\<close>: \<^verbatim>\<open>undefined\<close> (here \<open>None\<close>) outside the array.\<close>

definition js_index :: "'a list \<Rightarrow> int \<Rightarrow> 'a option" where
  "js_index xs i = (if 0 \<le> i \<and> i < int (length xs) then Some (xs ! nat i) else None)"

text \<open>\<^verbatim>\<open>_.reject(coll, pred)\<close>; a missing collection gives the empty array.\<close>

definition reject :: "'a list option \<Rightarrow> ('a \<Rightarrow> bool) \<Rightarrow> 'a list" where
  "reject coll pred = (case coll of None \<Rightarrow> [] | Some xs \<Rightarrow> filter (\<lambda>x. \<not> pred x) xs)"

subsection \<open>Constants and defaults\<close>

text \<open>
  Modelled from the spec: \<^verbatim>\<open>Constants.SCRIPT_TYPES\<close> (lib/common/constants.js is not
  among the sources) is the enumeration of the two address schemes, multi-signature
  (\<open>P2SH\<close>) and single key (\<open>P2PKH\<close>); the strings that stand for them are left open.
  \<^verbatim>\<open>Defaults.MAX_TX_FEE\<close> (lib/common/defaults.js) is an integer left open.
\<close>

record script_types =
  P2SH :: string
  P2PKH :: string

definition script_type_values :: "script_types \<Rightarrow> string list" where
  "script_type_values st = [P2SH st, P2PKH st]"

record defaults =
  MAX_TX_FEE :: int

subsection \<open>Transaction plans and the collaborator's transaction object\<close>

record utxo =
  txid :: string
  vout :: nat
  satoshis :: "int option"
  publicKeys :: "string list"

record plan_output =
  o_script :: "string option"
  o_toAddress :: "string option"
  o_amount :: "int option"

record change_address =
  address :: string

record txp =
  addressType :: string
  inputs :: "utxo list"
  requiredSignatures :: nat
  toAddress :: "string option"
  amount :: "int option"
  outputs :: "plan_output list option"
  fee :: "int option"
  changeAddress :: "change_address option"
  outputOrder :: "int list option"

record tx_output =
  out_script :: string
  out_satoshis :: int

text \<open>
  The transaction object of the bitcoin library, with the methods \<^verbatim>\<open>buildTx\<close> calls.
  Every method updates the object; \<open>tx_outputs\<close> reads its \<^verbatim>\<open>outputs\<close> array.
  \<open>tx_sortOutputs\<close> takes the sorting function; the array that function returns may
  hold \<^verbatim>\<open>undefined\<close> (\<open>None\<close>).
\<close>

record 'tx tx_lib =
  tx_new :: "'tx"
  tx_from_multisig :: "'tx \<Rightarrow> utxo \<Rightarrow> string list \<Rightarrow> nat \<Rightarrow> 'tx option"
  tx_from :: "'tx \<Rightarrow> utxo list \<Rightarrow> 'tx option"
  tx_to :: "'tx \<Rightarrow> string \<Rightarrow> int option \<Rightarrow> 'tx option"
  tx_Output_new :: "string \<Rightarrow> int option \<Rightarrow> tx_output option"
  tx_addOutput :: "'tx \<Rightarrow> tx_output \<Rightarrow> 'tx option"
  tx_fee :: "'tx \<Rightarrow> int option \<Rightarrow> 'tx option"
  tx_change :: "'tx \<Rightarrow> string \<Rightarrow> 'tx option"
  tx_sortOutputs :: "'tx \<Rightarrow> (tx_output list \<Rightarrow> tx_output option list) \<Rightarrow> 'tx option"
  tx_outputs :: "'tx \<Rightarrow> tx_output list"

definition thrown :: "'a option \<Rightarrow> error + 'a" where
  "thrown r = (case r of None \<Rightarrow> Inl LibraryError | Some x \<Rightarrow> Inr x)"

subsection \<open>buildTx\<close>

text \<open>Lines 181-183: \<^verbatim>\<open>_.each(txp.inputs, function(i) { t.from(i, i.publicKeys, ...) })\<close>.\<close>

fun from_each :: "'tx tx_lib \<Rightarrow> nat \<Rightarrow> utxo list \<Rightarrow> 'tx \<Rightarrow> error + 'tx" where
  "from_each L m [] t = Inr t"
| "from_each L m (i # is) t =
     (case tx_from_multisig L t i (publicKeys i) m of
        None \<Rightarrow> Inl LibraryError
      | Some t' \<Rightarrow> from_each L m is t')"

text \<open>Lines 177-188: the check of the address type and the switch that attaches the inputs.\<close>

definition attach_inputs :: "'tx tx_lib \<Rightarrow> script_types \<Rightarrow> txp \<Rightarrow> 'tx \<Rightarrow> error + 'tx" where
  "attach_inputs L C p t =
     (if addressType p \<notin> set (script_type_values C) then Inl StateError
      else if addressType p = P2SH C then from_each L (requiredSignatures p) (inputs p) t
      else if addressType p = P2PKH C then thrown (tx_from L t (inputs p))
      else Inr t)"

text \<open>Lines 193-203: one output of the plan's explicit output list.\<close>

definition add_output :: "'tx tx_lib \<Rightarrow> plan_output \<Rightarrow> 'tx \<Rightarrow> error + 'tx" where
  "add_output L o' t =
     (case o_script o' of
        Some s \<Rightarrow>
          (if s \<noteq> [] then
             (case tx_Output_new L s (o_amount o') of
                None \<Rightarrow> Inl LibraryError
              | Some out \<Rightarrow> thrown (tx_addOutput L t out))
           else
             (case o_toAddress o' of
                None \<Rightarrow> Inl StateError
              | Some a \<Rightarrow> if a = [] then Inl StateError else thrown (tx_to L t a (o_amount o'))))
      | None \<Rightarrow>
          (case o_toAddress o' of
             None \<Rightarrow> Inl StateError
           | Some a \<Rightarrow> if a = [] then Inl StateError else thrown (tx_to L t a (o_amount o'))))"

fun add_each :: "'tx tx_lib \<Rightarrow> plan_output list \<Rightarrow> 'tx \<Rightarrow> error + 'tx" where
  "add_each L [] t = Inr t"
| "add_each L (o' # os) t =
     (case add_output L o' t of Inl e \<Rightarrow> Inl e | Inr t' \<Rightarrow> add_each L os t')"

text \<open>
  Lines 190-204. \<^verbatim>\<open>txp.toAddress && txp.amount && !txp.outputs\<close>: a string is truthy
  when it is not empty, a number when it is not zero, an array always.
\<close>

definition add_outputs :: "'tx tx_lib \<Rightarrow> txp \<Rightarrow> 'tx \<Rightarrow> error + 'tx" where
  "add_outputs L p t =
     (case outputs p of
        None \<Rightarrow>
          (case (toAddress p, amount p) of
             (Some a, Some n) \<Rightarrow>
               if a \<noteq> [] \<and> n \<noteq> 0 then thrown (tx_to L t a (Some n)) else Inr t
           | _ \<Rightarrow> Inr t)
      | Some os \<Rightarrow> add_each L os t)"

text \<open>Lines 206-207: \<^verbatim>\<open>t.fee(txp.fee); t.change(txp.changeAddress.address)\<close>.\<close>

definition set_fee_change :: "'tx tx_lib \<Rightarrow> txp \<Rightarrow> 'tx \<Rightarrow> error + 'tx" where
  "set_fee_change L p t =
     (case tx_fee L t (fee p) of
        None \<Rightarrow> Inl LibraryError
      | Some t' \<Rightarrow>
          (case changeAddress p of
             None \<Rightarrow> Inl TypeError
           | Some ca \<Rightarrow> thrown (tx_change L t' (address ca))))"

text \<open>The transaction \<^verbatim>\<open>t\<close> as it stands at line 208, before the outputs are shuffled.\<close>

definition assembled :: "'tx tx_lib \<Rightarrow> script_types \<Rightarrow> txp \<Rightarrow> error + 'tx" where
  "assembled L C p =
     (case attach_inputs L C p (tx_new L) of
        Inl e \<Rightarrow> Inl e
      | Inr t1 \<Rightarrow>
          (case add_outputs L p t1 of
             Inl e \<Rightarrow> Inl e
           | Inr t2 \<Rightarrow> set_fee_change L p t2))"

text \<open>Lines 211-213: the plan's output order without the indices that are too large.\<close>

definition filtered_order :: "txp \<Rightarrow> nat \<Rightarrow> int list" where
  "filtered_order p n = reject (outputOrder p) (\<lambda>order. order \<ge> int n)"

text \<open>Lines 210-220.\<close>

definition shuffle_outputs :: "'tx tx_lib \<Rightarrow> txp \<Rightarrow> 'tx \<Rightarrow> error + 'tx" where
  "shuffle_outputs L p t =
     (if length (tx_outputs L t) > 1 then
        (let order = filtered_order p (length (tx_outputs L t)) in
         if length (tx_outputs L t) \<noteq> length order then Inl StateError
         else thrown (tx_sortOutputs L t (\<lambda>outs. map (\<lambda>i. js_index outs i) order)))
      else Inr t)"

text \<open>Lines 223-228: the two totals, each a \<^verbatim>\<open>_.reduce\<close> from 0.\<close>

definition totalInputs :: "txp \<Rightarrow> jsnum" where
  "totalInputs p = foldl (\<lambda>memo i. js_add (to_number (satoshis i)) memo) (Num 0) (inputs p)"

definition totalOutputs :: "'tx tx_lib \<Rightarrow> 'tx \<Rightarrow> jsnum" where
  "totalOutputs L t =
     foldl (\<lambda>memo out. js_add (Num (out_satoshis out)) memo) (Num 0) (tx_outputs L t)"

text \<open>Lines 230-233.\<close>

definition check_totals :: "'tx tx_lib \<Rightarrow> defaults \<Rightarrow> txp \<Rightarrow> 'tx \<Rightarrow> error + 'tx" where
  "check_totals L D p t =
     (if \<not> js_ge (js_sub (totalInputs p) (totalOutputs L t)) (Num 0) then Inl StateError
      else if \<not> js_le (js_sub (totalInputs p) (totalOutputs L t)) (Num (MAX_TX_FEE D))
      then Inl StateError
      else Inr t)"

text \<open>The transaction \<^verbatim>\<open>t\<close> as it stands at line 221, after the outputs are shuffled.\<close>

definition shuffled :: "'tx tx_lib \<Rightarrow> script_types \<Rightarrow> txp \<Rightarrow> error + 'tx" where
  "shuffled L C p =
     (case assembled L C p of
        Inl e \<Rightarrow> Inl e
      | Inr t \<Rightarrow> shuffle_outputs L p t)"

definition buildTx :: "'tx tx_lib \<Rightarrow> script_types \<Rightarrow> defaults \<Rightarrow> txp \<Rightarrow> error + 'tx" where
  "buildTx L C D p =
     (case shuffled L C p of
        Inl e \<Rightarrow> Inl e
      | Inr t \<Rightarrow> check_totals L D p t)"

text \<open>
  The contract of \<^verbatim>\<open>sortOutputs\<close> that the reordering relies on: when the method
  returns, the outputs of the transaction are what the sorting function returned.
\<close>

definition sort_contract :: "'tx tx_lib \<Rightarrow> bool" where
  "sort_contract L =
     (\<forall>t f t'. tx_sortOutputs L t f = Some t' \<longrightarrow> map Some (tx_outputs L t') = f (tx_outputs L t))"

text \<open>The two totals as plain sums, to state what \<open>check_totals\<close> compares.\<close>

definition inputs_valued :: "txp \<Rightarrow> bool" where
  "inputs_valued p = list_all (\<lambda>i. satoshis i \<noteq> None) (inputs p)"

definition input_value :: "txp \<Rightarrow> int" where
  "input_value p = sum_list (map (\<lambda>i. case satoshis i of None \<Rightarrow> 0 | Some n \<Rightarrow> n) (inputs p))"

definition output_value :: "'tx tx_lib \<Rightarrow> 'tx \<Rightarrow> int" where
  "output_value L t = sum_list (map out_satoshis (tx_outputs L t))"

subsection \<open>hashMessage, signMessage, verifyMessage\<close>

text \<open>
  The signature operations of the bitcoin library. A text is the string of its bytes,
  so \<^verbatim>\<open>new Buffer(text)\<close> is the text itself. The constructors of keys, the signing,
  the parsing of a signature and the verification can throw.
\<close>

record ('priv, 'pub, 'sig) ecdsa_lib =
  PrivateKey_new :: "string \<Rightarrow> 'priv option"
  PublicKey_new :: "string \<Rightarrow> 'pub option"
  sha256sha256 :: "string \<Rightarrow> string"
  readReverse :: "string \<Rightarrow> string"
  ECDSA_sign :: "string \<Rightarrow> 'priv \<Rightarrow> string \<Rightarrow> 'sig option"
  ECDSA_verify :: "string \<Rightarrow> 'sig \<Rightarrow> 'pub \<Rightarrow> string \<Rightarrow> bool option"
  Signature_toString :: "'sig \<Rightarrow> string"
  Signature_fromString :: "string \<Rightarrow> 'sig option"

text \<open>Lines 41-47.\<close>

definition hashMessage :: "('priv, 'pub, 'sig) ecdsa_lib \<Rightarrow> string \<Rightarrow> error + string" where
  "hashMessage L text =
     (if text = [] then Inl ArgumentError
      else Inr (readReverse L (sha256sha256 L text)))"

text \<open>Lines 50-55.\<close>

definition signMessage ::
  "('priv, 'pub, 'sig) ecdsa_lib \<Rightarrow> string \<Rightarrow> string \<Rightarrow> error + string" where
  "signMessage L text privKey =
     (if text = [] then Inl ArgumentError
      else
        (case PrivateKey_new L privKey of
           None \<Rightarrow> Inl LibraryError
         | Some priv \<Rightarrow>
             (case hashMessage L text of
                Inl e \<Rightarrow> Inl e
              | Inr hash \<Rightarrow>
                  (case ECDSA_sign L hash priv ''little'' of
                     None \<Rightarrow> Inl LibraryError
                   | Some sig \<Rightarrow> Inr (Signature_toString L sig)))))"

text \<open>
  Lines 58-74. The signature may be missing (\<open>None\<close>); \<^verbatim>\<open>!signature\<close> holds for a
  missing and for an empty one. The public key is constructed outside the
  \<^verbatim>\<open>try\<close>, the signature is parsed and verified inside it.
\<close>

definition verifyMessage ::
  "('priv, 'pub, 'sig) ecdsa_lib \<Rightarrow> string \<Rightarrow> string option \<Rightarrow> string \<Rightarrow> error + bool" where
  "verifyMessage L text signature pubKey =
     (if text = [] then Inl ArgumentError
      else if pubKey = [] then Inl ArgumentError
      else
        (case signature of
           None \<Rightarrow> Inr False
         | Some s \<Rightarrow>
             if s = [] then Inr False
             else
               (case PublicKey_new L pubKey of
                  None \<Rightarrow> Inl LibraryError
                | Some pub \<Rightarrow>
                    (case hashMessage L text of
                       Inl e \<Rightarrow> Inl e
                     | Inr hash \<Rightarrow>
                         (case Signature_fromString L s of
                            None \<Rightarrow> Inr False
                          | Some sig \<Rightarrow>
                              (case ECDSA_verify L hash sig pub ''little'' of
                                 None \<Rightarrow> Inr False
                               | Some b \<Rightarrow> Inr b))))))"

text \<open>
  What makes \<open>(priv, pub)\<close> a valid key pair for the library: both are accepted by the
  constructors, and on the digest that the library's hash gives for a non-empty message,
  in the byte order \<^verbatim>\<open>'little'\<close>, the private key signs, the signature is a non-empty
  string once printed and is read back from that string, and it verifies under the
  public key. Nothing is asked of the library on other strings or byte orders.
\<close>

definition valid_key_pair :: "('priv, 'pub, 'sig) ecdsa_lib \<Rightarrow> string \<Rightarrow> string \<Rightarrow> bool" where
  "valid_key_pair L priv pub =
     (pub \<noteq> [] \<and>
      (\<exists>sk pk. PrivateKey_new L priv = Some sk \<and> PublicKey_new L pub = Some pk \<and>
         (\<forall>msg. msg \<noteq> [] \<longrightarrow>
            (\<exists>sg. ECDSA_sign L (readReverse L (sha256sha256 L msg)) sk ''little'' = Some sg
               \<and> Signature_toString L sg \<noteq> []
               \<and> Signature_fromString L (Signature_toString L sg) = Some sg
               \<and> ECDSA_verify L (readReverse L (sha256sha256 L msg)) sg pk ''little''
                   = Some True))))"

subsection \<open>decryptMessage\<close>

text \<open>The two operations of sjcl that \<^verbatim>\<open>decryptMessage\<close> calls; both can throw.\<close>

record 'bits sjcl_lib =
  base64_toBits :: "string \<Rightarrow> 'bits option"
  sjcl_decrypt :: "'bits \<Rightarrow> string \<Rightarrow> string option"

text \<open>Lines 30-37: the whole body is inside the \<^verbatim>\<open>try\<close>.\<close>

definition decryptMessage :: "'bits sjcl_lib \<Rightarrow> string \<Rightarrow> string \<Rightarrow> error + string" where
  "decryptMessage L cyphertextJson encryptingKey =
     (case base64_toBits L encryptingKey of
        None \<Rightarrow> Inr cyphertextJson
      | Some key \<Rightarrow>
          (case sjcl_decrypt L key cyphertextJson of
             None \<Rightarrow> Inr cyphertextJson
           | Some plaintext \<Rightarrow> Inr plaintext))"

subsection \<open>deriveAddress\<close>

text \<open>
  The hierarchical-key and address operations of the bitcoin library. Two calls of
  \<^verbatim>\<open>deriveAddress\<close> are compared below, so the state that the library may keep
  between calls is explicit here: every operation takes the library's state \<open>'w\<close> and
  returns the state it leaves. The constructors can throw.
\<close>

record ('w, 'xpub, 'pub, 'addr) hd_lib =
  HDPublicKey_new :: "string \<Rightarrow> 'w \<Rightarrow> 'xpub option \<times> 'w"
  deriveChild :: "'xpub \<Rightarrow> string \<Rightarrow> 'w \<Rightarrow> 'xpub option \<times> 'w"
  publicKey :: "'xpub \<Rightarrow> 'pub"
  Address_createMultisig :: "'pub list \<Rightarrow> nat \<Rightarrow> string \<Rightarrow> 'w \<Rightarrow> 'addr option \<times> 'w"
  Address_fromPublicKey :: "'pub \<Rightarrow> string \<Rightarrow> 'w \<Rightarrow> 'addr option \<times> 'w"
  Address_toString :: "'addr \<Rightarrow> 'w \<Rightarrow> string \<times> 'w"
  PublicKey_toString :: "'pub \<Rightarrow> 'w \<Rightarrow> string \<times> 'w"

record ring_entry =
  xPubKey :: string
  requestPubKey :: string

record derived_address =
  da_address :: string
  da_path :: string
  da_publicKeys :: "string list"

text \<open>Lines 103-106: \<^verbatim>\<open>_.map\<close> over the ring, from the first entry to the last.\<close>

fun derive_keys ::
  "('w, 'xpub, 'pub, 'addr) hd_lib \<Rightarrow> string \<Rightarrow> ring_entry list \<Rightarrow> 'w \<Rightarrow> 'pub list option \<times> 'w"
  where
  "derive_keys L path [] w = (Some [], w)"
| "derive_keys L path (item # items) w =
     (case HDPublicKey_new L (xPubKey item) w of
        (None, w1) \<Rightarrow> (None, w1)
      | (Some xpub, w1) \<Rightarrow>
          (case deriveChild L xpub path w1 of
             (None, w2) \<Rightarrow> (None, w2)
           | (Some child, w2) \<Rightarrow>
               (case derive_keys L path items w2 of
                  (None, w3) \<Rightarrow> (None, w3)
                | (Some keys, w3) \<Rightarrow> (Some (publicKey L child # keys), w3))))"

text \<open>Line 122: \<^verbatim>\<open>_.invokeMap(publicKeys, 'toString')\<close>.\<close>

fun keys_toString ::
  "('w, 'xpub, 'pub, 'addr) hd_lib \<Rightarrow> 'pub list \<Rightarrow> 'w \<Rightarrow> string list \<times> 'w" where
  "keys_toString L [] w = ([], w)"
| "keys_toString L (k # ks) w =
     (case PublicKey_toString L k w of
        (s, w1) \<Rightarrow> (case keys_toString L ks w1 of (ss, w2) \<Rightarrow> (s # ss, w2)))"

text \<open>
  Lines 108-117: the switch. With a script type that is neither of the two cases,
  \<^verbatim>\<open>btcAddress\<close> stays undefined (\<open>Inl TypeError\<close>, raised at line 120).
\<close>

definition make_address ::
  "('w, 'xpub, 'pub, 'addr) hd_lib \<Rightarrow> script_types \<Rightarrow> string \<Rightarrow> 'pub list \<Rightarrow> nat \<Rightarrow> string
     \<Rightarrow> 'w \<Rightarrow> (error + 'addr) \<times> 'w" where
  "make_address L C scriptType keys m network w =
     (if scriptType = P2SH C then
        (case Address_createMultisig L keys m network w of
           (None, w1) \<Rightarrow> (Inl LibraryError, w1)
         | (Some a, w1) \<Rightarrow> (Inr a, w1))
      else if scriptType = P2PKH C then
        (case keys of
           [k] \<Rightarrow>
             (case Address_fromPublicKey L k network w of
                (None, w1) \<Rightarrow> (Inl LibraryError, w1)
              | (Some a, w1) \<Rightarrow> (Inr a, w1))
         | _ \<Rightarrow> (Inl StateError, w))
      else (Inl TypeError, w))"

text \<open>Lines 100-124.\<close>

definition deriveAddress ::
  "('w, 'xpub, 'pub, 'addr) hd_lib \<Rightarrow> script_types \<Rightarrow> string \<Rightarrow> ring_entry list \<Rightarrow> string
     \<Rightarrow> nat \<Rightarrow> string \<Rightarrow> 'w \<Rightarrow> (error + derived_address) \<times> 'w" where
  "deriveAddress L C scriptType publicKeyRing path m network w =
     (if scriptType \<notin> set (script_type_values C) then (Inl ArgumentError, w)
      else
        (case derive_keys L path publicKeyRing w of
           (None, w1) \<Rightarrow> (Inl LibraryError, w1)
         | (Some keys, w1) \<Rightarrow>
             (case make_address L C scriptType keys m network w1 of
                (Inl e, w2) \<Rightarrow> (Inl e, w2)
              | (Inr btcAddress, w2) \<Rightarrow>
                  (case Address_toString L btcAddress w2 of
                     (a, w3) \<Rightarrow>
                       (case keys_toString L keys w3 of
                          (ks, w4) \<Rightarrow>
                            (Inr \<lparr>da_address = a, da_path = path, da_publicKeys = ks\<rparr>, w4))))))"

text \<open>
  A library is stateless when what an operation returns does not depend on the state
  it is called in.
\<close>

definition stateless :: "('w, 'xpub, 'pub, 'addr) hd_lib \<Rightarrow> bool" where
  "stateless L =
     ((\<forall>s w w'. fst (HDPublicKey_new L s w) = fst (HDPublicKey_new L s w'))
      \<and> (\<forall>x p w w'. fst (deriveChild L x p w) = fst (deriveChild L x p w'))
      \<and> (\<forall>ks m n w w'. fst (Address_createMultisig L ks m n w)
            = fst (Address_createMultisig L ks m n w'))
      \<and> (\<forall>k n w w'. fst (Address_fromPublicKey L k n w) = fst (Address_fromPublicKey L k n w'))
      \<and> (\<forall>a w w'. fst (Address_toString L a w) = fst (Address_toString L a w'))
      \<and> (\<forall>k w w'. fst (PublicKey_toString L k w) = fst (PublicKey_toString L k w')))"

subsection \<open>JavaScript values and their conversion to strings\<close>

text \<open>
  The values that reach \<^verbatim>\<open>getProposalHash\<close>; a number is an integer, an object is
  the list of its keys and values.
\<close>

datatype jsval =
  JUndefined | JNull | JBool bool | JNum int | JStr string
  | JArr "jsval list" | JObj "(string \<times> jsval) list"

definition digit_char :: "int \<Rightarrow> char" where
  "digit_char d = ''0123456789'' ! nat (d mod 10)"

text \<open>The decimal digits of a natural number, given as an integer.\<close>

function digits :: "int \<Rightarrow> string" where
  "digits n = (if n < 10 then [digit_char n] else digits (n div 10) @ [digit_char (n mod 10)])"
  by pat_completeness auto
termination
  by (relation "measure nat") auto

declare digits.simps [simp del]

text \<open>An integer as JavaScript prints it (below \<open>10^21\<close>, where no exponent is used).\<close>

definition show_int :: "int \<Rightarrow> string" where
  "show_int i = (if i < 0 then CHR ''-'' # digits (- i) else digits i)"

fun join_strings :: "string \<Rightarrow> string list \<Rightarrow> string" where
  "join_strings sep [] = []"
| "join_strings sep [x] = x"
| "join_strings sep (x # y # ys) = x @ sep @ join_strings sep (y # ys)"

text \<open>
  \<^verbatim>\<open>ToString\<close>, and \<^verbatim>\<open>Array.prototype.join\<close>, which prints \<^verbatim>\<open>undefined\<close> and
  \<^verbatim>\<open>null\<close> as the empty string.
\<close>

fun js_toString :: "jsval \<Rightarrow> string" where
  "js_toString JUndefined = ''undefined''"
| "js_toString JNull = ''null''"
| "js_toString (JBool b) = (if b then ''true'' else ''false'')"
| "js_toString (JNum n) = show_int n"
| "js_toString (JStr s) = s"
| "js_toString (JArr xs) =
     join_strings '',''
       (map (\<lambda>x. if x = JUndefined \<or> x = JNull then [] else js_toString x) xs)"
| "js_toString (JObj kvs) = ''[object Object]''"

definition js_join :: "jsval list \<Rightarrow> string \<Rightarrow> string" where
  "js_join xs sep =
     join_strings sep (map (\<lambda>x. if x = JUndefined \<or> x = JNull then [] else js_toString x) xs)"

fun truthy :: "jsval \<Rightarrow> bool" where
  "truthy JUndefined = False"
| "truthy JNull = False"
| "truthy (JBool b) = b"
| "truthy (JNum n) = (n \<noteq> 0)"
| "truthy (JStr s) = (s \<noteq> [])"
| "truthy (JArr xs) = True"
| "truthy (JObj kvs) = True"

text \<open>\<^verbatim>\<open>a || b\<close>\<close>

definition js_or :: "jsval \<Rightarrow> jsval \<Rightarrow> jsval" where
  "js_or a b = (if truthy a then a else b)"

subsection \<open>getProposalHash\<close>

text \<open>The \<open>i\<close>-th argument of a call; \<^verbatim>\<open>undefined\<close> when the call has fewer.\<close>

definition arg :: "jsval list \<Rightarrow> nat \<Rightarrow> jsval" where
  "arg arguments i = (if i < length arguments then arguments ! i else JUndefined)"

text \<open>Lines 88-90.\<close>

definition getOldHash :: "jsval \<Rightarrow> jsval \<Rightarrow> jsval \<Rightarrow> jsval \<Rightarrow> string" where
  "getOldHash toAddr amnt message payProUrl =
     js_join [toAddr, amnt, js_or message (JStr []), js_or payProUrl (JStr [])] ''|''"

text \<open>
  Lines 87-98. The first argument is json-stable-stringify's function, which returns
  \<^verbatim>\<open>undefined\<close> (\<open>None\<close>) for a value that has no JSON text; the second is the
  list of the arguments of the call.
\<close>

definition getProposalHash :: "(jsval \<Rightarrow> string option) \<Rightarrow> jsval list \<Rightarrow> string option" where
  "getProposalHash Stringify arguments =
     (if length arguments > 1
      then Some (getOldHash (arg arguments 0) (arg arguments 1) (arg arguments 2) (arg arguments 3))
      else Stringify (arg arguments 0))"

text \<open>
  Two objects are equal up to the order of their keys; a serialization is independent
  of the order of the keys when it gives such objects the same text.
\<close>

definition equal_up_to_key_order :: "jsval \<Rightarrow> jsval \<Rightarrow> bool" where
  "equal_up_to_key_order a b =
     (case (a, b) of
        (JObj xs, JObj ys) \<Rightarrow>
          distinct (map fst xs) \<and> distinct (map fst ys) \<and> set xs = set ys
      | _ \<Rightarrow> a = b)"

definition key_order_independent :: "(jsval \<Rightarrow> string option) \<Rightarrow> bool" where
  "key_order_independent f = (\<forall>a b. equal_up_to_key_order a b \<longrightarrow> f a = f b)"

text \<open>An optional string argument: missing, or present.\<close>

definition js_opt :: "string option \<Rightarrow> jsval" where
  "js_opt v = (case v of None \<Rightarrow> JUndefined | Some s \<Rightarrow> JStr s)"

subsection \<open>Numbers with a fractional part, and their conversions from and to strings\<close>

text \<open>
  \<^verbatim>\<open>formatAmount\<close> divides an integer amount by the size of a unit, a power of ten. The
  quotient \<open>m / 10^k\<close> is kept exactly, as the pair \<open>(m, k)\<close>: for the amounts of
  satoshis that a double holds exactly, JavaScript prints the double nearest to the
  quotient with the digits of the quotient itself. The one place where the binary value
  shows is \<^verbatim>\<open>toFixed\<close> at a tie; there the model asks its parameter \<open>up\<close> whether
  the double nearest to \<open>m / 10^k\<close> is at or above it.
\<close>

type_synonym dec = "int \<times> nat"

definition is_digit :: "char \<Rightarrow> bool" where
  "is_digit c = (c \<in> set ''0123456789'')"

text \<open>The class \<^verbatim>\<open>\w\<close> of regular expressions.\<close>

definition is_word :: "char \<Rightarrow> bool" where
  "is_word c =
     (c \<in> set ''abcdefghijklmnopqrstuvwxyzABCDEFGHIJKLMNOPQRSTUVWXYZ0123456789_'')"

definition digits_val :: "string \<Rightarrow> int" where
  "digits_val ds = foldl (\<lambda>a c. 10 * a + (of_char c - 48)) 0 ds"

definition strip_zeros_right :: "string \<Rightarrow> string" where
  "strip_zeros_right ds = rev (dropWhile (\<lambda>c. c = CHR ''0'') (rev ds))"

text \<open>
  \<^verbatim>\<open>Number.prototype.toString\<close>: with the digits \<open>ds\<close> of the number without its
  trailing zeros and the position \<open>n\<close> of the decimal point after the first digit
  counted from the left, plain notation for \<open>-6 < n \<le> 21\<close> and exponent notation
  otherwise.
\<close>

definition number_toString :: "dec \<Rightarrow> string" where
  "number_toString x =
     (case x of (m, k) \<Rightarrow>
        if m = 0 then ''0''
        else
          (let all = digits \<bar>m\<bar>;
               ds = strip_zeros_right all;
               n = int (length all) - int k;
               body =
                 (if int (length ds) \<le> n \<and> n \<le> 21
                    then ds @ replicate (nat (n - int (length ds))) (CHR ''0'')
                  else if 0 < n \<and> n \<le> 21
                    then take (nat n) ds @ ''.'' @ drop (nat n) ds
                  else if - 6 < n \<and> n \<le> 0
                    then ''0.'' @ replicate (nat (- n)) (CHR ''0'') @ ds
                  else
                    (if length ds = 1 then ds else take 1 ds @ ''.'' @ drop 1 ds)
                    @ ''e'' @ (if n - 1 < 0 then ''-'' else ''+'') @ digits \<bar>n - 1\<bar>)
           in (if m < 0 then ''-'' else []) @ body))"

text \<open>The decimal \<open>m * 10^e\<close>.\<close>

definition dec_of :: "int \<Rightarrow> int \<Rightarrow> dec" where
  "dec_of m e = (if e < 0 then (m, nat (- e)) else (m * 10 ^ nat e, 0))"

text \<open>The exponent part of a decimal literal; \<open>0\<close> when the string does not start with one.\<close>

definition exponent_part :: "string \<Rightarrow> int" where
  "exponent_part s =
     (case s of
        [] \<Rightarrow> 0
      | c # r \<Rightarrow>
          if c = CHR ''e'' \<or> c = CHR ''E'' then
            (case r of
               [] \<Rightarrow> 0
             | d # r' \<Rightarrow>
                 if d = CHR ''-'' then
                   (if takeWhile is_digit r' = [] then 0
                    else - digits_val (takeWhile is_digit r'))
                 else if d = CHR ''+'' then digits_val (takeWhile is_digit r')
                 else digits_val (takeWhile is_digit r))
          else 0)"

text \<open>
  \<^verbatim>\<open>parseFloat\<close> on a string without leading white space: the longest prefix that
  is a decimal literal; \<open>None\<close> is \<^verbatim>\<open>NaN\<close>.
\<close>

definition parseFloat :: "string \<Rightarrow> dec option" where
  "parseFloat s =
     (let neg = (s \<noteq> [] \<and> hd s = CHR ''-'');
          s1 = (if s \<noteq> [] \<and> (hd s = CHR ''-'' \<or> hd s = CHR ''+'') then tl s else s);
          ip = takeWhile is_digit s1;
          s2 = dropWhile is_digit s1;
          fp = (if s2 \<noteq> [] \<and> hd s2 = CHR ''.'' then takeWhile is_digit (tl s2) else []);
          s3 = (if s2 \<noteq> [] \<and> hd s2 = CHR ''.'' then dropWhile is_digit (tl s2) else s2)
      in if ip = [] \<and> fp = [] then None
         else Some (dec_of ((if neg then - 1 else 1) * digits_val (ip @ fp))
                      (exponent_part s3 - int (length fp))))"

text \<open>
  \<^verbatim>\<open>Number.prototype.toFixed\<close> with \<open>f\<close> digits: the integer \<open>n\<close> for which
  \<open>n / 10^f\<close> is nearest to the number, then its digits with the point before the last
  \<open>f\<close> of them. At and above \<open>10^21\<close> it is \<^verbatim>\<open>toString\<close>.
\<close>

definition nearest :: "(dec \<Rightarrow> bool) \<Rightarrow> int \<Rightarrow> nat \<Rightarrow> nat \<Rightarrow> int" where
  "nearest up a k f =
     (if k \<le> f then a * 10 ^ (f - k)
      else
        (let q = a div 10 ^ (k - f); r = a mod 10 ^ (k - f); half = 10 ^ (k - f) div 2
         in if r > half then q + 1
            else if r < half then q
            else if up (a, k) then q + 1 else q))"

definition toFixed :: "(dec \<Rightarrow> bool) \<Rightarrow> dec option \<Rightarrow> nat \<Rightarrow> string" where
  "toFixed up x f =
     (case x of
        None \<Rightarrow> ''NaN''
      | Some (m, k) \<Rightarrow>
          if \<bar>m\<bar> \<ge> 10 ^ (21 + k) then number_toString (m, k)
          else
            (let n = nearest up \<bar>m\<bar> k f;
                 ds = digits n;
                 padded = (if length ds \<le> f then replicate (f + 1 - length ds) (CHR ''0'') @ ds
                           else ds);
                 body = (if f = 0 then ds
                         else take (length padded - f) padded @ ''.''
                              @ drop (length padded - f) padded)
             in (if m < 0 then ''-'' else []) @ body))"

text \<open>\<^verbatim>\<open>s.split(sep)\<close> and \<^verbatim>\<open>s.replace(a, b)\<close> for separators of one character.\<close>

fun split_char :: "char \<Rightarrow> string \<Rightarrow> string list" where
  "split_char sep [] = [[]]"
| "split_char sep (c # cs) =
     (if c = sep then [] # split_char sep cs
      else (case split_char sep cs of [] \<Rightarrow> [[c]] | p # ps \<Rightarrow> (c # p) # ps))"

fun replace_first :: "char \<Rightarrow> char \<Rightarrow> string \<Rightarrow> string" where
  "replace_first a b [] = []"
| "replace_first a b (c # cs) = (if c = a then b # cs else c # replace_first a b cs)"

text \<open>
  \<^verbatim>\<open>_.dropRightWhile(xs, pred)\<close>, the predicate taking the element and its index.
\<close>

function drop_right_while :: "(char \<Rightarrow> nat \<Rightarrow> bool) \<Rightarrow> string \<Rightarrow> string" where
  "drop_right_while pred xs =
     (if xs = [] then []
      else if pred (last xs) (length xs - 1) then drop_right_while pred (butlast xs)
      else xs)"
  by pat_completeness auto
termination
  by (relation "measure (\<lambda>(pred, xs). length xs)") auto

declare drop_right_while.simps [simp del]

text \<open>
  \<^verbatim>\<open>x0.replace(/\B(?=(\d{3})+(?!\d))/g, thousands)\<close>: the separator goes in at
  every position that is not a word boundary and is followed by a run of digits whose
  length is a positive multiple of three. \<open>prev\<close> tells whether the character before
  the position is a word character.
\<close>

fun add_thousands :: "char \<Rightarrow> bool \<Rightarrow> string \<Rightarrow> string" where
  "add_thousands sep prev [] = []"
| "add_thousands sep prev (c # cs) =
     (if prev = is_word c
         \<and> length (takeWhile is_digit (c # cs)) > 0
         \<and> length (takeWhile is_digit (c # cs)) mod 3 = 0
      then [sep] else [])
     @ c # add_thousands sep (is_word c) cs"

subsection \<open>formatAmount\<close>

text \<open>
  Modelled from the spec: \<^verbatim>\<open>Constants.UNITS\<close> (lib/common/constants.js is not among
  the sources) gives every display unit its size in satoshis, a power of ten kept here
  by its exponent, and for each of the precisions full and short the greatest and the
  least number of decimals.
\<close>

record unit_precision =
  maxDecimals :: nat
  minDecimals :: nat

record display_unit =
  toSatoshis_exp :: nat
  full :: unit_precision
  short :: unit_precision

record format_opts =
  fullPrecision :: bool
  thousandsSeparator :: "char option"
  decimalSeparator :: "char option"

text \<open>Lines 145-149.\<close>

definition clipDecimals :: "dec \<Rightarrow> nat \<Rightarrow> dec option" where
  "clipDecimals number decimals =
     (let x = split_char (CHR ''.'') (number_toString number);
          x1 = (if length x > 1 \<and> x ! 1 \<noteq> [] then x ! 1 else ''0'');
          d = take decimals x1
      in parseFloat (hd x @ ''.'' @ d))"

text \<open>Lines 151-164.\<close>

definition addSeparators :: "string \<Rightarrow> char \<Rightarrow> char \<Rightarrow> nat \<Rightarrow> string" where
  "addSeparators nStr thousands decimal minDec =
     (let x = split_char decimal (replace_first (CHR ''.'') decimal nStr);
          x0 = hd x;
          x1 = drop_right_while (\<lambda>n i. n = CHR ''0'' \<and> i \<ge> minDec)
                 (if length x > 1 then x ! 1 else []);
          x2 = (if length x > 1 then decimal # x1 else [])
      in add_thousands thousands False x0 @ x2)"

text \<open>Lines 141-172.\<close>

definition formatAmount ::
  "(dec \<Rightarrow> bool) \<Rightarrow> (string \<times> display_unit) list \<Rightarrow> int \<Rightarrow> string \<Rightarrow> format_opts option
     \<Rightarrow> error + string" where
  "formatAmount up UNITS sat unit opts =
     (case map_of UNITS unit of
        None \<Rightarrow> Inl ArgumentError
      | Some u \<Rightarrow>
          (let opts' = (case opts of
                          None \<Rightarrow> \<lparr>fullPrecision = False, thousandsSeparator = None,
                                     decimalSeparator = None\<rparr>
                        | Some v \<Rightarrow> v);
               precision = (if fullPrecision opts' then full u else short u);
               amnt = toFixed up (clipDecimals (sat, toSatoshis_exp u) (maxDecimals precision))
                        (maxDecimals precision)
           in Inr (addSeparators amnt
                     (case thousandsSeparator opts' of None \<Rightarrow> CHR '','' | Some c \<Rightarrow> c)
                     (case decimalSeparator opts' of None \<Rightarrow> CHR ''.'' | Some c \<Rightarrow> c)
                     (minDecimals precision))))"

section \<open>Libraries and plans for concrete instances\<close>

subsection \<open>A small transaction library for concrete instances\<close>

text \<open>
  A stand-in for the collaborator, used where a statement is instantiated: it keeps the
  total of the inputs, the outputs and the fee; a multi-signature input needs public
  keys and a threshold among them; \<open>change\<close> appends the change output when something
  is left over; \<open>sortOutputs\<close> accepts a rearrangement of the outputs and throws
  otherwise.
\<close>

record ref_tx =
  ref_in :: int
  ref_outs :: "tx_output list"
  ref_fee :: int

definition ref_value :: "utxo \<Rightarrow> int" where
  "ref_value i = (case satoshis i of None \<Rightarrow> 0 | Some n \<Rightarrow> n)"

definition ref_add :: "ref_tx \<Rightarrow> string \<Rightarrow> int option \<Rightarrow> ref_tx option" where
  "ref_add t a n =
     (case n of
        None \<Rightarrow> None
      | Some v \<Rightarrow>
          if v < 0 then None
          else Some (t\<lparr>ref_outs := ref_outs t @ [\<lparr>out_script = a, out_satoshis = v\<rparr>]\<rparr>))"

definition ref_change :: "ref_tx \<Rightarrow> string \<Rightarrow> ref_tx option" where
  "ref_change t a =
     (let c = ref_in t - sum_list (map out_satoshis (ref_outs t)) - ref_fee t
      in if c > 0 then ref_add t a (Some c) else Some t)"

definition ref_sort :: "ref_tx \<Rightarrow> (tx_output list \<Rightarrow> tx_output option list) \<Rightarrow> ref_tx option" where
  "ref_sort t f =
     (case those (f (ref_outs t)) of
        None \<Rightarrow> None
      | Some outs \<Rightarrow>
          if length outs = length (ref_outs t) \<and> list_all (\<lambda>x. x \<in> set outs) (ref_outs t)
          then Some (t\<lparr>ref_outs := outs\<rparr>) else None)"

definition ref_lib :: "ref_tx tx_lib" where
  "ref_lib =
     \<lparr> tx_new = \<lparr>ref_in = 0, ref_outs = [], ref_fee = 0\<rparr>,
       tx_from_multisig = (\<lambda>t i pks m. if pks = [] \<or> m = 0 \<or> m > length pks then None
                                      else Some (t\<lparr>ref_in := ref_in t + ref_value i\<rparr>)),
       tx_from = (\<lambda>t is. Some (t\<lparr>ref_in := ref_in t + sum_list (map ref_value is)\<rparr>)),
       tx_to = ref_add,
       tx_Output_new = (\<lambda>s n. case n of None \<Rightarrow> None
                               | Some v \<Rightarrow> Some \<lparr>out_script = s, out_satoshis = v\<rparr>),
       tx_addOutput = (\<lambda>t out. Some (t\<lparr>ref_outs := ref_outs t @ [out]\<rparr>)),
       tx_fee = (\<lambda>t f. Some (t\<lparr>ref_fee := (case f of None \<Rightarrow> 0 | Some v \<Rightarrow> v)\<rparr>)),
       tx_change = ref_change,
       tx_sortOutputs = ref_sort,
       tx_outputs = ref_outs \<rparr>"

definition ex_types :: script_types where
  "ex_types = \<lparr>P2SH = ''P2SH'', P2PKH = ''P2PKH''\<rparr>"

definition ex_defaults :: defaults where
  "ex_defaults = \<lparr>MAX_TX_FEE = 100000000\<rparr>"

definition ex_utxo :: "int \<Rightarrow> utxo" where
  "ex_utxo n = \<lparr>txid = ''aa'', vout = 0, satoshis = Some n, publicKeys = []\<rparr>"

text \<open>An input of a multi-signature wallet of three copayers.\<close>

definition ex_utxo_multisig :: "int \<Rightarrow> utxo" where
  "ex_utxo_multisig n =
     \<lparr>txid = ''bb'', vout = 1, satoshis = Some n, publicKeys = [''pk1'', ''pk2'', ''pk3'']\<rparr>"

text \<open>Two inputs of 60000 and 40000, one payment, fee 900; the change makes a second output.\<close>

definition ex_plan :: "int \<Rightarrow> int list option \<Rightarrow> txp" where
  "ex_plan n order =
     \<lparr> addressType = ''P2PKH'', inputs = [ex_utxo 60000, ex_utxo 40000],
       requiredSignatures = 1, toAddress = Some ''dest'', amount = Some n,
       outputs = None, fee = Some 900,
       changeAddress = Some \<lparr>address = ''chg''\<rparr>, outputOrder = order \<rparr>"

text \<open>Two explicit outputs, one by script and one by address; with the change, three.\<close>

definition ex_plan3 :: "int list option \<Rightarrow> txp" where
  "ex_plan3 order =
     \<lparr> addressType = ''P2SH'', inputs = [ex_utxo_multisig 60000, ex_utxo_multisig 40000],
       requiredSignatures = 2, toAddress = None, amount = None,
       outputs = Some [\<lparr>o_script = Some ''s1'', o_toAddress = None, o_amount = Some 50000\<rparr>,
                       \<lparr>o_script = None, o_toAddress = Some ''a2'', o_amount = Some 30000\<rparr>],
       fee = Some 1000,
       changeAddress = Some \<lparr>address = ''chg''\<rparr>, outputOrder = order \<rparr>"

definition ex_out :: "string \<Rightarrow> int \<Rightarrow> tx_output" where
  "ex_out s n = \<lparr>out_script = s, out_satoshis = n\<rparr>"

text \<open>
  A toy signature library for concrete instances: a digest has 32 bytes, the public key
  of \<open>k\<close> is \<open>P\<close> followed by \<open>k\<close>, a signature is the key followed by the byte
  order and the digest, printed after \<open>S\<close>. Signing and verifying throw on a string
  that is not a digest of 32 bytes and on an unknown byte order.
\<close>

definition toy_ecdsa :: "(string, string, string) ecdsa_lib" where
  "toy_ecdsa =
     \<lparr> PrivateKey_new = (\<lambda>s. if s = [] then None else Some s),
       PublicKey_new = (\<lambda>s. case s of [] \<Rightarrow> None
                            | c # k \<Rightarrow> if c = CHR ''P'' \<and> k \<noteq> [] then Some k else None),
       sha256sha256 = (\<lambda>b. take 32 (b @ replicate 32 (CHR ''0''))),
       readReverse = rev,
       ECDSA_sign = (\<lambda>h k e. if length h = 32 \<and> (e = ''little'' \<or> e = ''big'')
                               then Some (k @ e @ h) else None),
       ECDSA_verify = (\<lambda>h sg k e. if length h = 32 \<and> (e = ''little'' \<or> e = ''big'')
                                   then Some (sg = k @ e @ h) else None),
       Signature_toString = (\<lambda>sg. CHR ''S'' # sg),
       Signature_fromString = (\<lambda>s. case s of [] \<Rightarrow> None
                                   | c # sg \<Rightarrow> if c = CHR ''S'' then Some sg else None) \<rparr>"

text \<open>
  A toy cipher for concrete instances: a key is a string without \<open>!\<close>, the ciphertext
  of \<open>p\<close> under \<open>k\<close> is \<open>k\<close>, a bar and \<open>p\<close>; decrypting with another key throws.
\<close>

definition toy_sjcl :: "string sjcl_lib" where
  "toy_sjcl =
     \<lparr> base64_toBits = (\<lambda>s. if CHR ''!'' \<in> set s then None else Some s),
       sjcl_decrypt = (\<lambda>k c. if take (Suc (length k)) c = k @ ''|''
                              then Some (drop (Suc (length k)) c) else None) \<rparr>"

text \<open>
  A toy library for concrete instances. Its state counts the calls made so far. An
  extended key is a string that starts with \<open>x\<close>, a child key is the key, a slash and
  the path; an address is the letter of its scheme and the keys it is made of.
\<close>

definition toy_hd :: "(nat, string, string, string) hd_lib" where
  "toy_hd =
     \<lparr> HDPublicKey_new = (\<lambda>s w. (case s of [] \<Rightarrow> None
                                  | c # r \<Rightarrow> if c = CHR ''x'' then Some s else None, Suc w)),
       deriveChild = (\<lambda>x p w. (if p = [] then None else Some (x @ ''/'' @ p), Suc w)),
       publicKey = (\<lambda>x. x),
       Address_createMultisig =
         (\<lambda>ks m n w. (if m = 0 \<or> m > length ks then None
                       else Some (CHR ''3'' # concat ks @ n), Suc w)),
       Address_fromPublicKey = (\<lambda>k n w. (Some (CHR ''1'' # k @ n), Suc w)),
       Address_toString = (\<lambda>a w. (a, Suc w)),
       PublicKey_toString = (\<lambda>k w. (k, Suc w)) \<rparr>"

definition ex_ring :: "string list \<Rightarrow> ring_entry list" where
  "ex_ring xs = map (\<lambda>x. \<lparr>xPubKey = x, requestPubKey = ''r''\<rparr>) xs"

text \<open>
  A serialization in the manner of json-stable-stringify, for concrete instances: the
  keys of an object are printed in ascending order, and a key whose value has no JSON
  text is left out.
\<close>

definition quoted :: "string \<Rightarrow> string" where
  "quoted s = [CHR 0x22] @ concat (map (\<lambda>c. if c = CHR 0x22 \<or> c = CHR 0x5C then [CHR 0x5C, c] else [c]) s)
     @ [CHR 0x22]"

definition print_members :: "(string \<times> string option) list \<Rightarrow> string" where
  "print_members kts =
     ''{'' @ join_strings '',''
        (concat (map (\<lambda>(k, t). case t of None \<Rightarrow> [] | Some s \<Rightarrow> [quoted k @ '':'' @ s])
           (sort_key fst kts))) @ ''}''"

fun stable_stringify :: "jsval \<Rightarrow> string option" where
  "stable_stringify JUndefined = None"
| "stable_stringify JNull = Some ''null''"
| "stable_stringify (JBool b) = Some (if b then ''true'' else ''false'')"
| "stable_stringify (JNum n) = Some (show_int n)"
| "stable_stringify (JStr s) = Some (quoted s)"
| "stable_stringify (JArr xs) =
     Some (''['' @ join_strings '',''
        (map (\<lambda>x. case stable_stringify x of None \<Rightarrow> ''null'' | Some s \<Rightarrow> s) xs) @ '']'')"
| "stable_stringify (JObj kvs) =
     Some (print_members (map (\<lambda>(k, v). (k, stable_stringify v)) kvs))"

text \<open>Display units: one of \<open>10^8\<close> satoshis, one of \<open>10^2\<close>.\<close>

definition ex_units :: "nat \<Rightarrow> nat \<Rightarrow> (string \<times> display_unit) list" where
  "ex_units mx mn =
     [(''BTC'', \<lparr>toSatoshis_exp = 8,
                 full = \<lparr>maxDecimals = 8, minDecimals = 8\<rparr>,
                 short = \<lparr>maxDecimals = mx, minDecimals = mn\<rparr>\<rparr>),
      (''bit'', \<lparr>toSatoshis_exp = 2,
                 full = \<lparr>maxDecimals = 2, minDecimals = 2\<rparr>,
                 short = \<lparr>maxDecimals = 0, minDecimals = 0\<rparr>\<rparr>)]"

section \<open>Properties of buildTx\<close>

lemma foldl_inputs_NaN: "foldl (\<lambda>memo i. js_add (to_number (satoshis i)) memo) NaN is = NaN"
  by (induction "is") (auto elim: to_number.elims)

lemma foldl_inputs:
  "foldl (\<lambda>memo i. js_add (to_number (satoshis i)) memo) (Num a) is =
     (if list_all (\<lambda>i. satoshis i \<noteq> None) is
      then Num (a + sum_list (map (\<lambda>i. case satoshis i of None \<Rightarrow> 0 | Some n \<Rightarrow> n) is))
      else NaN)"
proof (induction "is" arbitrary: a)
  case Nil
  show ?case by simp
next
  case (Cons i "is")
  show ?case
  proof (cases "satoshis i")
    case None
    then show ?thesis by (simp add: foldl_inputs_NaN)
  next
    case (Some n)
    then show ?thesis using Cons.IH [of "n + a"] by (simp add: add.commute add.left_commute)
  qed
qed

lemma totalInputs_eq:
  "totalInputs p = (if inputs_valued p then Num (input_value p) else NaN)"
  by (simp add: totalInputs_def inputs_valued_def input_value_def foldl_inputs)

lemma foldl_outputs:
  "foldl (\<lambda>memo out. js_add (Num (out_satoshis out)) memo) (Num a) os =
     Num (a + sum_list (map out_satoshis os))"
  by (induction os arbitrary: a) (simp_all add: add.commute add.left_commute)

lemma totalOutputs_eq: "totalOutputs L t = Num (output_value L t)"
  by (simp add: totalOutputs_def output_value_def foldl_outputs)

lemma check_totals_eq:
  "check_totals L D p t =
     (if inputs_valued p \<and> 0 \<le> input_value p - output_value L t
         \<and> input_value p - output_value L t \<le> MAX_TX_FEE D
      then Inr t else Inl StateError)"
  by (simp add: check_totals_def totalInputs_eq totalOutputs_eq)

text \<open>
  C1: buildTx sums the satoshis of the plan's inputs and the satoshis of the outputs of
  the transaction it has assembled (change output included, outputs reordered), and
  returns that transaction exactly when every input has a value and
  \<open>0 \<le> totalInputs - totalOutputs \<le> MAX_TX_FEE\<close>; when the difference is negative or
  above the bound (or not a number) it fails with a state error, and a failure of an
  earlier step is the failure of buildTx: no transaction is returned.
\<close>

theorem buildTx_checks_totals:
  "(buildTx L C D p = Inr t \<longrightarrow>
      shuffled L C p = Inr t \<and> inputs_valued p
      \<and> 0 \<le> input_value p - output_value L t
      \<and> input_value p - output_value L t \<le> MAX_TX_FEE D)
   \<and> (shuffled L C p = Inr t \<longrightarrow>
        buildTx L C D p =
          (if inputs_valued p \<and> 0 \<le> input_value p - output_value L t
              \<and> input_value p - output_value L t \<le> MAX_TX_FEE D
           then Inr t else Inl StateError))
   \<and> (\<forall>e. shuffled L C p = Inl e \<longrightarrow> buildTx L C D p = Inl e)"
  by (auto simp: buildTx_def check_totals_eq split: sum.splits if_splits)

theorem buildTx_checks_totals_witness:
  "buildTx ref_lib ex_types ex_defaults (ex_plan 99000 (Some [1, 0]))
     = Inr \<lparr>ref_in = 100000, ref_outs = [ex_out ''chg'' 100, ex_out ''dest'' 99000], ref_fee = 900\<rparr>
   \<and> input_value (ex_plan 99000 (Some [1, 0]))
       - output_value ref_lib
           \<lparr>ref_in = 100000, ref_outs = [ex_out ''chg'' 100, ex_out ''dest'' 99000], ref_fee = 900\<rparr>
       \<le> MAX_TX_FEE ex_defaults
   \<and> shuffled ref_lib ex_types (ex_plan 100001 None)
       = Inr \<lparr>ref_in = 100000, ref_outs = [ex_out ''dest'' 100001], ref_fee = 900\<rparr>
   \<and> input_value (ex_plan 100001 None)
       - output_value ref_lib \<lparr>ref_in = 100000, ref_outs = [ex_out ''dest'' 100001], ref_fee = 900\<rparr> = -1
   \<and> buildTx ref_lib ex_types ex_defaults (ex_plan 100001 None) = Inl StateError"
proof -
  let ?ta = "\<lparr>ref_in = 100000, ref_outs = [ex_out ''chg'' 100, ex_out ''dest'' 99000], ref_fee = 900\<rparr>"
  let ?tb = "\<lparr>ref_in = 100000, ref_outs = [ex_out ''dest'' 100001], ref_fee = 900\<rparr>"
  have b1: "buildTx ref_lib ex_types ex_defaults (ex_plan 99000 (Some [1, 0])) = Inr ?ta"
    by code_simp
  have s2: "shuffled ref_lib ex_types (ex_plan 100001 None) = Inr ?tb"
    by code_simp
  have v2: "input_value (ex_plan 100001 None) - output_value ref_lib ?tb = -1"
    by (simp add: input_value_def output_value_def ex_plan_def ex_utxo_def ref_lib_def ex_out_def)
  from b1 buildTx_checks_totals [of ref_lib ex_types ex_defaults "ex_plan 99000 (Some [1, 0])" ?ta]
  have r1: "input_value (ex_plan 99000 (Some [1, 0])) - output_value ref_lib ?ta
      \<le> MAX_TX_FEE ex_defaults"
    by blast
  from s2 buildTx_checks_totals [of ref_lib ex_types ex_defaults "ex_plan 100001 None" ?tb]
  have "buildTx ref_lib ex_types ex_defaults (ex_plan 100001 None) =
          (if inputs_valued (ex_plan 100001 None)
              \<and> 0 \<le> input_value (ex_plan 100001 None) - output_value ref_lib ?tb
              \<and> input_value (ex_plan 100001 None) - output_value ref_lib ?tb \<le> MAX_TX_FEE ex_defaults
           then Inr ?tb else Inl StateError)"
    by blast
  then have r2: "buildTx ref_lib ex_types ex_defaults (ex_plan 100001 None) = Inl StateError"
    by (simp only: v2) simp
  from b1 r1 s2 v2 r2 show ?thesis by blast
qed

lemma those_Some: "those xs = Some ys \<Longrightarrow> map Some ys = xs"
  by (induction xs arbitrary: ys) (auto split: option.splits)

lemma ref_lib_sort_contract: "sort_contract ref_lib"
  by (auto simp: sort_contract_def ref_lib_def ref_sort_def those_Some
      split: option.splits if_splits)

lemma filtered_order_range:
  "filtered_order p n = filter (\<lambda>i. i < int n) (case outputOrder p of None \<Rightarrow> [] | Some xs \<Rightarrow> xs)"
  by (simp add: filtered_order_def reject_def not_le split: option.splits)

lemma map_js_index_Some:
  "map Some ys = map (js_index xs) ns \<Longrightarrow>
     ys = map (\<lambda>i. xs ! nat i) ns \<and> (\<forall>i\<in>set ns. 0 \<le> i \<and> i < int (length xs))"
proof (induction ns arbitrary: ys)
  case Nil
  then show ?case by simp
next
  case (Cons i ns)
  then obtain y ys' where ys: "ys = y # ys'" by (cases ys) auto
  with Cons.prems have h: "Some y = js_index xs i" and t: "map Some ys' = map (js_index xs) ns"
    by simp_all
  from h have "y = xs ! nat i \<and> 0 \<le> i \<and> i < int (length xs)"
    by (auto simp: js_index_def split: if_splits)
  with Cons.IH [OF t] ys show ?case by simp
qed

text \<open>
  C2 as stated, that buildTx fails with a state error or reorders the outputs: only the
  indices that are too large are dropped, and only the number of the kept indices is
  checked. With three outputs and the order \<open>[0, 0, 1]\<close> or \<open>[-1, 0, 1]\<close> all three
  indices are kept and the check passes; what the sorting function returns is not a
  rearrangement of the outputs, the library's sortOutputs throws, and buildTx fails
  with the library's error: neither a state error nor a reordered transaction.
\<close>

theorem buildTx_output_order_counterexample:
  "assembled ref_lib ex_types (ex_plan3 (Some [0, 0, 1]))
     = Inr \<lparr>ref_in = 100000,
            ref_outs = [ex_out ''s1'' 50000, ex_out ''a2'' 30000, ex_out ''chg'' 19000],
            ref_fee = 1000\<rparr>
   \<and> filtered_order (ex_plan3 (Some [0, 0, 1])) 3 = [0, 0, 1]
   \<and> buildTx ref_lib ex_types ex_defaults (ex_plan3 (Some [0, 0, 1])) = Inl LibraryError
   \<and> filtered_order (ex_plan3 (Some [- 1, 0, 1])) 3 = [- 1, 0, 1]
   \<and> buildTx ref_lib ex_types ex_defaults (ex_plan3 (Some [- 1, 0, 1])) = Inl LibraryError"
  by code_simp

text \<open>
  C2, amended: when the assembled transaction (the plan's outputs and the change
  output) has more than one output, buildTx keeps of outputOrder exactly the indices
  below the number of outputs (a negative index is kept); it fails with a state error
  when the number of indices kept differs from the number of outputs; otherwise it
  hands the outputs taken at the kept indices to the collaborator's sortOutputs, and
  fails with the collaborator's error when sortOutputs throws. With sortOutputs keeping
  its contract, a transaction that is returned has the assembled outputs in the order
  of the kept indices, which are then all in range, and a negative kept index makes
  buildTx fail with the collaborator's error.
\<close>

theorem buildTx_output_order:
  assumes "assembled L C p = Inr t0" and "length (tx_outputs L t0) > 1"
  shows "filtered_order p (length (tx_outputs L t0)) =
        filter (\<lambda>i. i < int (length (tx_outputs L t0)))
          (case outputOrder p of None \<Rightarrow> [] | Some xs \<Rightarrow> xs)
    \<and> (length (filtered_order p (length (tx_outputs L t0))) \<noteq> length (tx_outputs L t0)
         \<longrightarrow> buildTx L C D p = Inl StateError)
    \<and> (\<forall>t. sort_contract L \<and> buildTx L C D p = Inr t \<longrightarrow>
          length (filtered_order p (length (tx_outputs L t0))) = length (tx_outputs L t0)
          \<and> map Some (tx_outputs L t) =
              map (js_index (tx_outputs L t0)) (filtered_order p (length (tx_outputs L t0)))
          \<and> tx_outputs L t =
              map (\<lambda>i. tx_outputs L t0 ! nat i) (filtered_order p (length (tx_outputs L t0)))
          \<and> (\<forall>i\<in>set (filtered_order p (length (tx_outputs L t0))). 0 \<le> i))
    \<and> (length (filtered_order p (length (tx_outputs L t0))) = length (tx_outputs L t0) \<longrightarrow>
          buildTx L C D p =
            (case tx_sortOutputs L t0
                    (\<lambda>outs. map (js_index outs) (filtered_order p (length (tx_outputs L t0)))) of
               None \<Rightarrow> Inl LibraryError
             | Some t \<Rightarrow> check_totals L D p t))
    \<and> (sort_contract L
          \<and> length (filtered_order p (length (tx_outputs L t0))) = length (tx_outputs L t0)
          \<and> (\<exists>i\<in>set (filtered_order p (length (tx_outputs L t0))). i < 0) \<longrightarrow>
          buildTx L C D p = Inl LibraryError)"
proof (intro conjI allI impI)
  show "filtered_order p (length (tx_outputs L t0)) =
        filter (\<lambda>i. i < int (length (tx_outputs L t0)))
          (case outputOrder p of None \<Rightarrow> [] | Some xs \<Rightarrow> xs)"
    by (rule filtered_order_range)
next
  assume "length (filtered_order p (length (tx_outputs L t0))) \<noteq> length (tx_outputs L t0)"
  with assms show "buildTx L C D p = Inl StateError"
    by (simp add: buildTx_def shuffled_def shuffle_outputs_def Let_def)
next
  fix t
  assume a: "sort_contract L \<and> buildTx L C D p = Inr t"
  then have sh: "shuffled L C p = Inr t"
    by (auto simp: buildTx_def check_totals_def split: sum.splits if_splits)
  with assms show "length (filtered_order p (length (tx_outputs L t0))) = length (tx_outputs L t0)"
    by (auto simp: shuffled_def shuffle_outputs_def Let_def split: if_splits)
  from sh assms have "tx_sortOutputs L t0
      (\<lambda>outs. map (\<lambda>i. js_index outs i) (filtered_order p (length (tx_outputs L t0)))) = Some t"
    by (auto simp: shuffled_def shuffle_outputs_def Let_def thrown_def
        split: if_splits option.splits)
  with a show m: "map Some (tx_outputs L t) =
      map (js_index (tx_outputs L t0)) (filtered_order p (length (tx_outputs L t0)))"
    unfolding sort_contract_def by blast
  from map_js_index_Some [OF m]
  show "tx_outputs L t =
      map (\<lambda>i. tx_outputs L t0 ! nat i) (filtered_order p (length (tx_outputs L t0)))"
    and "\<forall>i\<in>set (filtered_order p (length (tx_outputs L t0))). 0 \<le> i"
    by simp_all
next
  assume "length (filtered_order p (length (tx_outputs L t0))) = length (tx_outputs L t0)"
  with assms show "buildTx L C D p =
      (case tx_sortOutputs L t0
              (\<lambda>outs. map (js_index outs) (filtered_order p (length (tx_outputs L t0)))) of
         None \<Rightarrow> Inl LibraryError
       | Some t \<Rightarrow> check_totals L D p t)"
    by (simp add: buildTx_def shuffled_def shuffle_outputs_def Let_def thrown_def
        split: option.splits)
next
  assume a: "sort_contract L
      \<and> length (filtered_order p (length (tx_outputs L t0))) = length (tx_outputs L t0)
      \<and> (\<exists>i\<in>set (filtered_order p (length (tx_outputs L t0))). i < 0)"
  let ?f = "\<lambda>outs. map (js_index outs) (filtered_order p (length (tx_outputs L t0)))"
  have "tx_sortOutputs L t0 ?f = None"
  proof (cases "tx_sortOutputs L t0 ?f")
    case None
    then show ?thesis .
  next
    case (Some t)
    with a have "map Some (tx_outputs L t) = ?f (tx_outputs L t0)"
      unfolding sort_contract_def by blast
    from map_js_index_Some [OF this]
    have "\<forall>i\<in>set (filtered_order p (length (tx_outputs L t0))). 0 \<le> i"
      by simp
    with a show ?thesis by fastforce
  qed
  with assms a show "buildTx L C D p = Inl LibraryError"
    by (simp add: buildTx_def shuffled_def shuffle_outputs_def Let_def thrown_def)
qed

theorem buildTx_output_order_witness:
  "assembled ref_lib ex_types (ex_plan3 (Some [2, 0, 1]))
     = Inr \<lparr>ref_in = 100000,
            ref_outs = [ex_out ''s1'' 50000, ex_out ''a2'' 30000, ex_out ''chg'' 19000],
            ref_fee = 1000\<rparr>
   \<and> buildTx ref_lib ex_types ex_defaults (ex_plan3 (Some [2, 0, 1]))
     = Inr \<lparr>ref_in = 100000,
            ref_outs = [ex_out ''chg'' 19000, ex_out ''s1'' 50000, ex_out ''a2'' 30000],
            ref_fee = 1000\<rparr>
   \<and> map Some [ex_out ''chg'' 19000, ex_out ''s1'' 50000, ex_out ''a2'' 30000]
     = map (js_index [ex_out ''s1'' 50000, ex_out ''a2'' 30000, ex_out ''chg'' 19000]) [2, 0, 1]
   \<and> filtered_order (ex_plan3 (Some [5, 0, 1])) 3 = [0, 1]
   \<and> buildTx ref_lib ex_types ex_defaults (ex_plan3 (Some [5, 0, 1])) = Inl StateError
   \<and> buildTx ref_lib ex_types ex_defaults (ex_plan3 (Some [- 2, 0, 1])) = Inl LibraryError"
proof -
  let ?asm = "\<lparr>ref_in = 100000,
      ref_outs = [ex_out ''s1'' 50000, ex_out ''a2'' 30000, ex_out ''chg'' 19000],
      ref_fee = 1000\<rparr>"
  let ?res = "\<lparr>ref_in = 100000,
      ref_outs = [ex_out ''chg'' 19000, ex_out ''s1'' 50000, ex_out ''a2'' 30000],
      ref_fee = 1000\<rparr>"
  have a1: "assembled ref_lib ex_types (ex_plan3 (Some [2, 0, 1])) = Inr ?asm"
    by code_simp
  have a2: "assembled ref_lib ex_types (ex_plan3 (Some [5, 0, 1])) = Inr ?asm"
    by code_simp
  have n1: "tx_outputs ref_lib ?asm
      = [ex_out ''s1'' 50000, ex_out ''a2'' 30000, ex_out ''chg'' 19000]"
    by (simp add: ref_lib_def)
  have n2: "tx_outputs ref_lib ?res
      = [ex_out ''chg'' 19000, ex_out ''s1'' 50000, ex_out ''a2'' 30000]"
    by (simp add: ref_lib_def)
  have len: "1 < length (tx_outputs ref_lib ?asm)"
    by (simp add: n1)
  have b1: "buildTx ref_lib ex_types ex_defaults (ex_plan3 (Some [2, 0, 1])) = Inr ?res"
    by code_simp
  have f1: "filtered_order (ex_plan3 (Some [2, 0, 1])) (length (tx_outputs ref_lib ?asm))
      = [2, 0, 1]"
    by (simp add: n1 filtered_order_def reject_def ex_plan3_def)
  have f2: "filtered_order (ex_plan3 (Some [5, 0, 1])) (length (tx_outputs ref_lib ?asm))
      = [0, 1]"
    by (simp add: n1 filtered_order_def reject_def ex_plan3_def)
  have f3: "filtered_order (ex_plan3 (Some [5, 0, 1])) 3 = [0, 1]"
    by (simp add: filtered_order_def reject_def ex_plan3_def)
  from buildTx_output_order [OF a1 len, of ex_defaults] b1 ref_lib_sort_contract
  have "map Some (tx_outputs ref_lib ?res) = map (js_index (tx_outputs ref_lib ?asm))
      (filtered_order (ex_plan3 (Some [2, 0, 1])) (length (tx_outputs ref_lib ?asm)))"
    by blast
  then have r1: "map Some [ex_out ''chg'' 19000, ex_out ''s1'' 50000, ex_out ''a2'' 30000]
     = map (js_index [ex_out ''s1'' 50000, ex_out ''a2'' 30000, ex_out ''chg'' 19000]) [2, 0, 1]"
    by (simp only: f1) (simp only: n1 n2)
  have "length (filtered_order (ex_plan3 (Some [5, 0, 1])) (length (tx_outputs ref_lib ?asm)))
      \<noteq> length (tx_outputs ref_lib ?asm)"
    by (simp only: f2) (simp add: n1)
  with buildTx_output_order [OF a2 len, of ex_defaults]
  have r2: "buildTx ref_lib ex_types ex_defaults (ex_plan3 (Some [5, 0, 1])) = Inl StateError"
    by blast
  have a3: "assembled ref_lib ex_types (ex_plan3 (Some [- 2, 0, 1])) = Inr ?asm"
    by code_simp
  have f4: "filtered_order (ex_plan3 (Some [- 2, 0, 1])) (length (tx_outputs ref_lib ?asm))
      = [- 2, 0, 1]"
    by (simp add: n1 filtered_order_def reject_def ex_plan3_def)
  have "length (filtered_order (ex_plan3 (Some [- 2, 0, 1])) (length (tx_outputs ref_lib ?asm)))
      = length (tx_outputs ref_lib ?asm)"
    by (simp only: f4) (simp add: n1)
  moreover have "\<exists>i\<in>set (filtered_order (ex_plan3 (Some [- 2, 0, 1]))
      (length (tx_outputs ref_lib ?asm))). i < 0"
    by (simp only: f4) simp
  ultimately have r3: "buildTx ref_lib ex_types ex_defaults (ex_plan3 (Some [- 2, 0, 1]))
      = Inl LibraryError"
    using buildTx_output_order [OF a3 len, of ex_defaults] ref_lib_sort_contract by blast
  from a1 b1 r1 f3 r2 r3 show ?thesis by blast
qed

lemma attach_inputs_outputOrder:
  "attach_inputs L C (p\<lparr>outputOrder := oo\<rparr>) t = attach_inputs L C p t"
  by (simp add: attach_inputs_def)

lemma add_outputs_outputOrder: "add_outputs L (p\<lparr>outputOrder := oo\<rparr>) t = add_outputs L p t"
  by (simp add: add_outputs_def split: option.splits)

lemma set_fee_change_outputOrder:
  "set_fee_change L (p\<lparr>outputOrder := oo\<rparr>) t = set_fee_change L p t"
  by (simp add: set_fee_change_def split: option.splits)

lemma assembled_outputOrder: "assembled L C (p\<lparr>outputOrder := oo\<rparr>) = assembled L C p"
  by (simp add: assembled_def attach_inputs_outputOrder add_outputs_outputOrder
      set_fee_change_outputOrder split: sum.splits)

lemma check_totals_outputOrder:
  "check_totals L D (p\<lparr>outputOrder := oo\<rparr>) t = check_totals L D p t"
  by (simp add: check_totals_def totalInputs_def)

text \<open>
  C10: when the assembled transaction (change output included) has at most one output,
  buildTx does not look at outputOrder: whatever outputOrder is (missing, empty, of any
  length or content), the transaction reaches the check of the totals as it was
  assembled, the result of buildTx is the result of that check, and a transaction that
  is returned is the assembled one, its outputs where they were.
\<close>

theorem buildTx_single_output:
  assumes "assembled L C p = Inr t0" and "length (tx_outputs L t0) \<le> 1"
  shows "shuffled L C (p\<lparr>outputOrder := oo\<rparr>) = Inr t0
    \<and> buildTx L C D (p\<lparr>outputOrder := oo\<rparr>) = check_totals L D p t0
    \<and> (\<forall>t. buildTx L C D (p\<lparr>outputOrder := oo\<rparr>) = Inr t \<longrightarrow> t = t0)"
proof -
  from assms have sh: "shuffled L C (p\<lparr>outputOrder := oo\<rparr>) = Inr t0"
    by (simp add: shuffled_def shuffle_outputs_def assembled_outputOrder)
  then have b: "buildTx L C D (p\<lparr>outputOrder := oo\<rparr>) = check_totals L D p t0"
    by (simp add: buildTx_def check_totals_outputOrder)
  have "\<forall>t. check_totals L D p t0 = Inr t \<longrightarrow> t = t0"
    by (simp add: check_totals_def)
  with sh b show ?thesis by simp
qed

theorem buildTx_single_output_witness:
  "assembled ref_lib ex_types (ex_plan 99100 None)
     = Inr \<lparr>ref_in = 100000, ref_outs = [ex_out ''dest'' 99100], ref_fee = 900\<rparr>
   \<and> buildTx ref_lib ex_types ex_defaults (ex_plan 99100 None
        \<lparr>outputOrder := Some [7, 0, 0, -1]\<rparr>)
     = Inr \<lparr>ref_in = 100000, ref_outs = [ex_out ''dest'' 99100], ref_fee = 900\<rparr>
   \<and> buildTx ref_lib ex_types ex_defaults (ex_plan 99100 None\<lparr>outputOrder := Some []\<rparr>)
     = Inr \<lparr>ref_in = 100000, ref_outs = [ex_out ''dest'' 99100], ref_fee = 900\<rparr>
   \<and> buildTx ref_lib ex_types ex_defaults (ex_plan 99100 None\<lparr>outputOrder := None\<rparr>)
     = Inr \<lparr>ref_in = 100000, ref_outs = [ex_out ''dest'' 99100], ref_fee = 900\<rparr>"
proof -
  let ?asm = "\<lparr>ref_in = 100000, ref_outs = [ex_out ''dest'' 99100], ref_fee = 900\<rparr>"
  have a: "assembled ref_lib ex_types (ex_plan 99100 None) = Inr ?asm"
    by code_simp
  have len: "length (tx_outputs ref_lib ?asm) \<le> 1"
    by (simp add: ref_lib_def)
  have c: "check_totals ref_lib ex_defaults (ex_plan 99100 None) ?asm = Inr ?asm"
    by code_simp
  from buildTx_single_output [OF a len, of "Some [7, 0, 0, -1]" ex_defaults]
  have "buildTx ref_lib ex_types ex_defaults (ex_plan 99100 None
        \<lparr>outputOrder := Some [7, 0, 0, -1]\<rparr>)
      = check_totals ref_lib ex_defaults (ex_plan 99100 None) ?asm"
    by blast
  with c have r1: "buildTx ref_lib ex_types ex_defaults (ex_plan 99100 None
        \<lparr>outputOrder := Some [7, 0, 0, -1]\<rparr>) = Inr ?asm"
    by (rule trans [rotated])
  from buildTx_single_output [OF a len, of "Some []" ex_defaults]
  have "buildTx ref_lib ex_types ex_defaults (ex_plan 99100 None\<lparr>outputOrder := Some []\<rparr>)
      = check_totals ref_lib ex_defaults (ex_plan 99100 None) ?asm"
    by blast
  with c have r2: "buildTx ref_lib ex_types ex_defaults
      (ex_plan 99100 None\<lparr>outputOrder := Some []\<rparr>) = Inr ?asm"
    by (rule trans [rotated])
  from buildTx_single_output [OF a len, of None ex_defaults]
  have "buildTx ref_lib ex_types ex_defaults (ex_plan 99100 None\<lparr>outputOrder := None\<rparr>)
      = check_totals ref_lib ex_defaults (ex_plan 99100 None) ?asm"
    by blast
  with c have r3: "buildTx ref_lib ex_types ex_defaults
      (ex_plan 99100 None\<lparr>outputOrder := None\<rparr>) = Inr ?asm"
    by (rule trans [rotated])
  from a r1 r2 r3 show ?thesis by blast
qed

section \<open>Properties of the message signatures\<close>

lemma hashMessage_nonempty:
  "text \<noteq> [] \<Longrightarrow> hashMessage L text = Inr (readReverse L (sha256sha256 L text))"
  by (simp add: hashMessage_def)

text \<open>The text is required: without it verifyMessage raises an argument error.\<close>

lemma verifyMessage_requires_text: "verifyMessage L [] signature pubKey = Inl ArgumentError"
  by (simp add: verifyMessage_def)

text \<open>
  C3 as stated, for every public key string: the public key is constructed at line 65,
  before the \<^verbatim>\<open>try\<close>. With a non-empty text, a malformed signature and a key string
  that the library does not accept, verifyMessage raises the library's error; it does
  not return false.
\<close>

theorem verifyMessage_unparsable_key_counterexample:
  "PublicKey_new toy_ecdsa ''nokey'' = None
   \<and> Signature_fromString toy_ecdsa ''garbage'' = None
   \<and> verifyMessage toy_ecdsa ''hello'' (Some ''garbage'') ''nokey'' = Inl LibraryError
   \<and> verifyMessage toy_ecdsa ''hello'' (Some ''garbage'') ''nokey'' \<noteq> Inr False"
  by (simp add: verifyMessage_def toy_ecdsa_def)

text \<open>
  C3, for the non-empty text and the non-empty public key that verifyMessage requires:
  it returns false when the signature is absent (missing or empty), whatever the key;
  when the library accepts the public key, verifyMessage never raises, and returns
  false when the signature is malformed (the library cannot parse it) or does not
  verify (the library's verification returns false or throws); when the signature is
  not empty and the library does not accept the public key, verifyMessage raises the
  library's error.
\<close>

theorem verifyMessage_false_never_raises:
  assumes "text \<noteq> []" and "pubKey \<noteq> []"
  shows "((signature = None \<or> signature = Some []) \<longrightarrow>
            verifyMessage L text signature pubKey = Inr False)
    \<and> (\<forall>pub. PublicKey_new L pubKey = Some pub \<longrightarrow>
          (\<exists>b. verifyMessage L text signature pubKey = Inr b)
          \<and> (\<forall>s. signature = Some s \<and> Signature_fromString L s = None \<longrightarrow>
                verifyMessage L text signature pubKey = Inr False)
          \<and> (\<forall>s sig. signature = Some s \<and> Signature_fromString L s = Some sig
                \<and> ECDSA_verify L (readReverse L (sha256sha256 L text)) sig pub ''little''
                    \<noteq> Some True \<longrightarrow>
                verifyMessage L text signature pubKey = Inr False))
    \<and> (\<forall>s. signature = Some s \<and> s \<noteq> [] \<and> PublicKey_new L pubKey = None \<longrightarrow>
          verifyMessage L text signature pubKey = Inl LibraryError)"
  using assms
  by (auto simp: verifyMessage_def hashMessage_def split: option.splits)

theorem verifyMessage_false_never_raises_witness:
  "verifyMessage toy_ecdsa ''hello'' None ''Pk'' = Inr False
   \<and> verifyMessage toy_ecdsa ''hello'' (Some []) ''Pk'' = Inr False
   \<and> verifyMessage toy_ecdsa ''hello'' (Some ''garbage'') ''Pk'' = Inr False
   \<and> verifyMessage toy_ecdsa ''hello'' (Some ''Swrong'') ''Pk'' = Inr False
   \<and> verifyMessage toy_ecdsa ''hello'' (Some ''Swrong'') ''key'' = Inl LibraryError"
proof -
  have t: "''hello'' \<noteq> []" and p: "''Pk'' \<noteq> []"
    by simp_all
  have pk: "PublicKey_new toy_ecdsa ''Pk'' = Some ''k''"
    by (simp add: toy_ecdsa_def)
  have g: "Signature_fromString toy_ecdsa ''garbage'' = None"
    by (simp add: toy_ecdsa_def)
  have w: "Signature_fromString toy_ecdsa ''Swrong'' = Some ''wrong''"
    by (simp add: toy_ecdsa_def)
  have nv: "ECDSA_verify toy_ecdsa (readReverse toy_ecdsa (sha256sha256 toy_ecdsa ''hello''))
      ''wrong'' ''k'' ''little'' \<noteq> Some True"
    by (simp add: toy_ecdsa_def)
  have k: "''key'' \<noteq> []" "''Swrong'' \<noteq> []" "PublicKey_new toy_ecdsa ''key'' = None"
    by (simp_all add: toy_ecdsa_def)
  from verifyMessage_false_never_raises [OF t p, of None toy_ecdsa]
  have r1: "verifyMessage toy_ecdsa ''hello'' None ''Pk'' = Inr False"
    by blast
  from verifyMessage_false_never_raises [OF t p, of "Some []" toy_ecdsa]
  have r2: "verifyMessage toy_ecdsa ''hello'' (Some []) ''Pk'' = Inr False"
    by blast
  from verifyMessage_false_never_raises [OF t p, of "Some ''garbage''" toy_ecdsa] pk g
  have r3: "verifyMessage toy_ecdsa ''hello'' (Some ''garbage'') ''Pk'' = Inr False"
    by blast
  from verifyMessage_false_never_raises [OF t p, of "Some ''Swrong''" toy_ecdsa] pk w nv
  have r4: "verifyMessage toy_ecdsa ''hello'' (Some ''Swrong'') ''Pk'' = Inr False"
    by blast
  from verifyMessage_false_never_raises [OF t k(1), of "Some ''Swrong''" toy_ecdsa] k
  have r5: "verifyMessage toy_ecdsa ''hello'' (Some ''Swrong'') ''key'' = Inl LibraryError"
    by blast
  from r1 r2 r3 r4 r5 show ?thesis by blast
qed

text \<open>
  C5: for every non-empty text and every valid key pair (the library signs the digests
  of messages with the private key and verifies them with the public key), signMessage
  returns a signature, and verifyMessage returns true for the text, that signature and
  the public key.
\<close>

theorem sign_verify_roundtrip:
  assumes "text \<noteq> []" and "valid_key_pair L priv pub"
  shows "\<exists>s. signMessage L text priv = Inr s \<and> verifyMessage L text (Some s) pub = Inr True"
proof -
  from assms(2) obtain sk pk where
    pubne: "pub \<noteq> []" and sk: "PrivateKey_new L priv = Some sk"
    and pk: "PublicKey_new L pub = Some pk"
    and all: "\<forall>msg. msg \<noteq> [] \<longrightarrow>
            (\<exists>sg. ECDSA_sign L (readReverse L (sha256sha256 L msg)) sk ''little'' = Some sg
               \<and> Signature_toString L sg \<noteq> []
               \<and> Signature_fromString L (Signature_toString L sg) = Some sg
               \<and> ECDSA_verify L (readReverse L (sha256sha256 L msg)) sg pk ''little''
                   = Some True)"
    unfolding valid_key_pair_def by blast
  let ?h = "readReverse L (sha256sha256 L text)"
  from all assms(1) obtain sg where sg: "ECDSA_sign L ?h sk ''little'' = Some sg"
    and ne: "Signature_toString L sg \<noteq> []"
    and rt: "Signature_fromString L (Signature_toString L sg) = Some sg"
    and ok: "ECDSA_verify L ?h sg pk ''little'' = Some True"
    by blast
  from assms(1) sk sg have s: "signMessage L text priv = Inr (Signature_toString L sg)"
    by (simp add: signMessage_def hashMessage_def)
  from assms(1) pubne pk ne rt ok
  have "verifyMessage L text (Some (Signature_toString L sg)) pub = Inr True"
    by (simp add: verifyMessage_def hashMessage_def)
  with s show ?thesis by blast
qed

lemma toy_digest_length: "length (readReverse toy_ecdsa (sha256sha256 toy_ecdsa msg)) = 32"
  by (simp add: toy_ecdsa_def min_def)

lemma toy_key_pair: "k \<noteq> [] \<Longrightarrow> valid_key_pair toy_ecdsa k (CHR ''P'' # k)"
  using toy_digest_length by (simp add: valid_key_pair_def toy_ecdsa_def)

text \<open>The toy library refuses to sign a string that is not a digest of 32 bytes.\<close>

lemma toy_signs_digests_only: "ECDSA_sign toy_ecdsa ''hello'' ''k'' ''little'' = None"
  by (simp add: toy_ecdsa_def)

theorem sign_verify_roundtrip_witness:
  "signMessage toy_ecdsa ''hello'' ''k''
     = Inr ''Sklittle000000000000000000000000000olleh''
   \<and> verifyMessage toy_ecdsa ''hello'' (Some ''Sklittle000000000000000000000000000olleh'') ''Pk''
     = Inr True"
proof -
  have t: "''hello'' \<noteq> []" by simp
  have v: "valid_key_pair toy_ecdsa ''k'' ''Pk''"
    using toy_key_pair [of "''k''"] by simp
  have s: "signMessage toy_ecdsa ''hello'' ''k''
      = Inr ''Sklittle000000000000000000000000000olleh''"
    by code_simp
  from sign_verify_roundtrip [OF t v] s show ?thesis
    by simp
qed

section \<open>Properties of decryptMessage\<close>

text \<open>
  C7: decryptMessage never raises. What it returns is the plaintext, when the key is
  decoded and the decryption succeeds, and otherwise its first argument as it was
  given: when the key cannot be decoded, and when the decryption throws (malformed
  ciphertext, corrupted envelope, wrong key).
\<close>

theorem decryptMessage_never_raises:
  "(\<exists>r. decryptMessage L c k = Inr r
        \<and> (r = c \<or> (\<exists>key. base64_toBits L k = Some key \<and> sjcl_decrypt L key c = Some r)))
   \<and> (base64_toBits L k = None \<longrightarrow> decryptMessage L c k = Inr c)
   \<and> (\<forall>key. base64_toBits L k = Some key \<and> sjcl_decrypt L key c = None \<longrightarrow>
          decryptMessage L c k = Inr c)
   \<and> (\<forall>key p. base64_toBits L k = Some key \<and> sjcl_decrypt L key c = Some p \<longrightarrow>
          decryptMessage L c k = Inr p)"
  by (auto simp: decryptMessage_def split: option.splits)

theorem decryptMessage_never_raises_witness:
  "decryptMessage toy_sjcl ''key|secret'' ''key'' = Inr ''secret''
   \<and> decryptMessage toy_sjcl ''key|secret'' ''other'' = Inr ''key|secret''
   \<and> decryptMessage toy_sjcl ''key|secret'' ''k!'' = Inr ''key|secret''
   \<and> decryptMessage toy_sjcl ''not a ciphertext'' ''key'' = Inr ''not a ciphertext''"
proof -
  have b: "base64_toBits toy_sjcl ''key'' = Some ''key''"
    "base64_toBits toy_sjcl ''other'' = Some ''other''"
    "base64_toBits toy_sjcl ''k!'' = None"
    by (simp_all add: toy_sjcl_def)
  have d: "sjcl_decrypt toy_sjcl ''key'' ''key|secret'' = Some ''secret''"
    "sjcl_decrypt toy_sjcl ''other'' ''key|secret'' = None"
    "sjcl_decrypt toy_sjcl ''key'' ''not a ciphertext'' = None"
    by (simp_all add: toy_sjcl_def)
  from decryptMessage_never_raises [of toy_sjcl "''key|secret''" "''key''"] b d
  have r1: "decryptMessage toy_sjcl ''key|secret'' ''key'' = Inr ''secret''"
    by blast
  from decryptMessage_never_raises [of toy_sjcl "''key|secret''" "''other''"] b d
  have r2: "decryptMessage toy_sjcl ''key|secret'' ''other'' = Inr ''key|secret''"
    by blast
  from decryptMessage_never_raises [of toy_sjcl "''key|secret''" "''k!''"] b
  have r3: "decryptMessage toy_sjcl ''key|secret'' ''k!'' = Inr ''key|secret''"
    by blast
  from decryptMessage_never_raises [of toy_sjcl "''not a ciphertext''" "''key''"] b d
  have r4: "decryptMessage toy_sjcl ''not a ciphertext'' ''key'' = Inr ''not a ciphertext''"
    by blast
  from r1 r2 r3 r4 show ?thesis by blast
qed

section \<open>Properties of deriveAddress\<close>


lemma derive_keys_stateless:
  assumes "stateless L"
  shows "fst (derive_keys L path ring w) = fst (derive_keys L path ring w')"
proof (induction ring arbitrary: w w')
  case Nil
  show ?case by simp
next
  case (Cons item items)
  from assms have h: "fst (HDPublicKey_new L (xPubKey item) w) = fst (HDPublicKey_new L (xPubKey item) w')"
    unfolding stateless_def by fast
  obtain r1 w1 where a: "HDPublicKey_new L (xPubKey item) w = (r1, w1)" by fastforce
  obtain r1' w1' where a': "HDPublicKey_new L (xPubKey item) w' = (r1', w1')" by fastforce
  from h a a' have r1: "r1' = r1" by simp
  show ?case
  proof (cases r1)
    case None
    with a a' r1 show ?thesis by simp
  next
    case (Some xpub)
    from assms have d: "fst (deriveChild L xpub path w1) = fst (deriveChild L xpub path w1')"
      unfolding stateless_def by fast
    obtain r2 w2 where b: "deriveChild L xpub path w1 = (r2, w2)" by fastforce
    obtain r2' w2' where b': "deriveChild L xpub path w1' = (r2', w2')" by fastforce
    from d b b' have r2: "r2' = r2" by simp
    show ?thesis
    proof (cases r2)
      case None
      with a a' r1 Some b b' r2 show ?thesis by simp
    next
      case (Some child)
      from Cons.IH [of w2 w2'] a a' r1 \<open>r1 = Some xpub\<close> b b' r2 Some show ?thesis
        by (auto split: prod.splits option.splits)
    qed
  qed
qed

lemma keys_toString_stateless:
  assumes "stateless L"
  shows "fst (keys_toString L ks w) = fst (keys_toString L ks w')"
proof (induction ks arbitrary: w w')
  case Nil
  show ?case by simp
next
  case (Cons k ks)
  from assms have h: "fst (PublicKey_toString L k w) = fst (PublicKey_toString L k w')"
    unfolding stateless_def by fast
  from Cons.IH h show ?case
    by (auto split: prod.splits) (metis fst_conv)+
qed

lemma make_address_stateless:
  assumes "stateless L"
  shows "fst (make_address L C st ks m n w) = fst (make_address L C st ks m n w')"
proof -
  from assms have
    a: "fst (Address_createMultisig L ks m n w) = fst (Address_createMultisig L ks m n w')"
    and b: "\<And>k. fst (Address_fromPublicKey L k n w) = fst (Address_fromPublicKey L k n w')"
    unfolding stateless_def by fast+
  show ?thesis
  proof (cases "st = P2SH C")
    case True
    with a show ?thesis
      by (auto simp: make_address_def split: prod.splits option.splits)
  next
    case False
    show ?thesis
    proof (cases ks)
      case Nil
      with False show ?thesis by (simp add: make_address_def)
    next
      case (Cons k rest)
      with False b [of k] show ?thesis
        by (cases rest) (auto simp: make_address_def split: prod.splits option.splits)
    qed
  qed
qed

text \<open>
  C4: deriveAddress is deterministic. With a library whose operations return the same
  result in every state, a call of deriveAddress returns the same result (the same
  error, or the same address string, path and list of public key strings) whatever
  state it is made in; in particular a second call with the same arguments, made in
  the state the first call left, returns what the first returned.
\<close>

theorem deriveAddress_deterministic:
  assumes "stateless L"
  shows "fst (deriveAddress L C scriptType ring path m network w)
      = fst (deriveAddress L C scriptType ring path m network w')
    \<and> fst (deriveAddress L C scriptType ring path m network
          (snd (deriveAddress L C scriptType ring path m network w)))
      = fst (deriveAddress L C scriptType ring path m network w)"
proof -
  have det: "fst (deriveAddress L C scriptType ring path m network u)
      = fst (deriveAddress L C scriptType ring path m network u')" for u u'
  proof (cases "scriptType \<in> set (script_type_values C)")
    case False
    then show ?thesis by (simp add: deriveAddress_def)
  next
    case True
    obtain r1 u1 where a: "derive_keys L path ring u = (r1, u1)" by fastforce
    obtain r1' u1' where a': "derive_keys L path ring u' = (r1', u1')" by fastforce
    from derive_keys_stateless [OF assms, of path ring u u'] a a' have r1: "r1' = r1" by simp
    show ?thesis
    proof (cases r1)
      case None
      with True a a' r1 show ?thesis by (simp add: deriveAddress_def)
    next
      case (Some keys)
      obtain r2 u2 where b: "make_address L C scriptType keys m network u1 = (r2, u2)"
        by fastforce
      obtain r2' u2' where b': "make_address L C scriptType keys m network u1' = (r2', u2')"
        by fastforce
      from make_address_stateless [OF assms, of C scriptType keys m network u1 u1'] b b'
      have r2: "r2' = r2" by simp
      show ?thesis
      proof (cases r2)
        case (Inl e)
        with True a a' r1 Some b b' r2 show ?thesis by (simp add: deriveAddress_def)
      next
        case (Inr addr)
        obtain s3 u3 where c: "Address_toString L addr u2 = (s3, u3)" by fastforce
        obtain s3' u3' where c': "Address_toString L addr u2' = (s3', u3')" by fastforce
        from assms have "fst (Address_toString L addr u2) = fst (Address_toString L addr u2')"
          unfolding stateless_def by fast
        with c c' have s3: "s3' = s3" by simp
        obtain s4 u4 where d: "keys_toString L keys u3 = (s4, u4)" by fastforce
        obtain s4' u4' where d': "keys_toString L keys u3' = (s4', u4')" by fastforce
        from keys_toString_stateless [OF assms, of keys u3 u3'] d d' have s4: "s4' = s4" by simp
        from True a a' r1 Some b b' r2 Inr c c' s3 d d' s4 show ?thesis
          by (simp add: deriveAddress_def)
      qed
    qed
  qed
  from det [of w w'] det [of "snd (deriveAddress L C scriptType ring path m network w)" w]
  show ?thesis by simp
qed

lemma toy_hd_stateless: "stateless toy_hd"
  by (simp add: stateless_def toy_hd_def)

theorem deriveAddress_deterministic_witness:
  "deriveAddress toy_hd ex_types ''P2SH'' (ex_ring [''xA'', ''xB'']) ''m/0/3'' 2 ''live'' 0
     = (Inr \<lparr>da_address = ''3xA/m/0/3xB/m/0/3live'', da_path = ''m/0/3'',
             da_publicKeys = [''xA/m/0/3'', ''xB/m/0/3'']\<rparr>, 8)
   \<and> fst (deriveAddress toy_hd ex_types ''P2SH'' (ex_ring [''xA'', ''xB'']) ''m/0/3'' 2 ''live'' 8)
     = Inr \<lparr>da_address = ''3xA/m/0/3xB/m/0/3live'', da_path = ''m/0/3'',
            da_publicKeys = [''xA/m/0/3'', ''xB/m/0/3'']\<rparr>"
proof -
  have a: "deriveAddress toy_hd ex_types ''P2SH'' (ex_ring [''xA'', ''xB'']) ''m/0/3'' 2 ''live'' 0
     = (Inr \<lparr>da_address = ''3xA/m/0/3xB/m/0/3live'', da_path = ''m/0/3'',
             da_publicKeys = [''xA/m/0/3'', ''xB/m/0/3'']\<rparr>, 8)"
    by code_simp
  have e: "fst (deriveAddress toy_hd ex_types ''P2SH'' (ex_ring [''xA'', ''xB'']) ''m/0/3'' 2
        ''live'' 0)
      = fst (deriveAddress toy_hd ex_types ''P2SH'' (ex_ring [''xA'', ''xB'']) ''m/0/3'' 2
        ''live'' 8)"
    by (rule conjunct1 [OF deriveAddress_deterministic [OF toy_hd_stateless]])
  have "fst (deriveAddress toy_hd ex_types ''P2SH'' (ex_ring [''xA'', ''xB'']) ''m/0/3'' 2
        ''live'' 8)
      = Inr \<lparr>da_address = ''3xA/m/0/3xB/m/0/3live'', da_path = ''m/0/3'',
            da_publicKeys = [''xA/m/0/3'', ''xB/m/0/3'']\<rparr>"
    unfolding e [symmetric] by (simp only: a fst_conv)
  with a show ?thesis by (rule conjI)
qed



section \<open>Properties of getProposalHash\<close>

lemma sort_key_fst_unique:
  fixes xs ys :: "(string \<times> 'a) list"
  assumes "distinct (map fst xs)" and "distinct (map fst ys)" and "set xs = set ys"
  shows "sort_key fst xs = sort_key fst ys"
proof (rule map_sorted_distinct_set_unique [where f = fst])
  from assms(1) have "inj_on fst (set xs)" by (simp add: distinct_map)
  with assms(3) show "inj_on fst (set (sort_key fst xs) \<union> set (sort_key fst ys))" by simp
  show "sorted (map fst (sort_key fst xs))" "sorted (map fst (sort_key fst ys))" by simp_all
  from assms(1) show "distinct (map fst (sort_key fst xs))"
    by (metis distinct_map distinct_sort set_sort inj_on_cong) 
  from assms(2) show "distinct (map fst (sort_key fst ys))"
    by (metis distinct_map distinct_sort set_sort inj_on_cong)
  from assms(3) show "set (sort_key fst xs) = set (sort_key fst ys)" by simp
qed

lemma stable_stringify_key_order: "key_order_independent stable_stringify"
  unfolding key_order_independent_def
proof (intro allI impI)
  fix a b
  assume e: "equal_up_to_key_order a b"
  show "stable_stringify a = stable_stringify b"
  proof (cases "\<exists>xs ys. a = JObj xs \<and> b = JObj ys")
    case False
    with e show ?thesis
      by (cases a; cases b) (simp_all add: equal_up_to_key_order_def)
  next
    case True
    then obtain xs ys where a: "a = JObj xs" and b: "b = JObj ys" by blast
    let ?g = "\<lambda>(k, v). (k, stable_stringify v)"
    from e a b have d: "distinct (map fst xs)" "distinct (map fst ys)" and s: "set xs = set ys"
      by (simp_all add: equal_up_to_key_order_def)
    have f: "map fst (map ?g zs) = map fst zs" for zs :: "(string \<times> jsval) list"
      by (induction zs) auto
    from s have "set (map ?g xs) = set (map ?g ys)" by simp
    with d have "sort_key fst (map ?g xs) = sort_key fst (map ?g ys)"
      by (intro sort_key_fst_unique) (simp_all only: f)
    with a b show ?thesis by (simp add: print_members_def)
  qed
qed

lemma js_join4:
  "js_join [JStr a, JNum n, JStr m, JStr u] ''|''
     = a @ ''|'' @ show_int n @ ''|'' @ m @ ''|'' @ u"
  by (simp add: js_join_def)

lemma js_or_opt:
  "js_or (js_opt m) (JStr []) = JStr (case m of None \<Rightarrow> [] | Some s \<Rightarrow> s)"
  by (cases m) (auto simp: js_or_def js_opt_def)

text \<open>
  C8: getProposalHash chooses between two forms by the number of its arguments. Called
  with one argument, the proposal header, it returns the stable serialization of that
  argument, so that with a serialization that is independent of the order of keys, two
  headers equal up to the order of their keys get the same hash. Called with the four
  arguments toAddress, amount, message and payProUrl it returns these joined by bars,
  a message or payProUrl that is missing (undefined, null or left out of the call)
  giving the empty string.
\<close>

theorem getProposalHash_forms:
  "getProposalHash S [header] = S header
   \<and> (key_order_independent S \<and> equal_up_to_key_order h h' \<longrightarrow>
        getProposalHash S [h] = getProposalHash S [h'])
   \<and> getProposalHash S [JStr a, JNum n, js_opt m, js_opt u]
       = Some (a @ ''|'' @ show_int n @ ''|'' @ (case m of None \<Rightarrow> [] | Some s \<Rightarrow> s)
               @ ''|'' @ (case u of None \<Rightarrow> [] | Some s \<Rightarrow> s))
   \<and> getProposalHash S [JStr a, JNum n, JNull, JNull] = Some (a @ ''|'' @ show_int n @ ''||'')
   \<and> getProposalHash S [JStr a, JNum n] = Some (a @ ''|'' @ show_int n @ ''||'')"
proof (intro conjI impI)
  show "getProposalHash S [header] = S header"
    by (simp add: getProposalHash_def arg_def)
next
  assume "key_order_independent S \<and> equal_up_to_key_order h h'"
  then have "S h = S h'"
    unfolding key_order_independent_def by blast
  then show "getProposalHash S [h] = getProposalHash S [h']"
    by (simp add: getProposalHash_def arg_def)
next
  show "getProposalHash S [JStr a, JNum n, js_opt m, js_opt u]
       = Some (a @ ''|'' @ show_int n @ ''|'' @ (case m of None \<Rightarrow> [] | Some s \<Rightarrow> s)
               @ ''|'' @ (case u of None \<Rightarrow> [] | Some s \<Rightarrow> s))"
    by (simp add: getProposalHash_def arg_def getOldHash_def js_or_opt js_join4)
next
  show "getProposalHash S [JStr a, JNum n, JNull, JNull] = Some (a @ ''|'' @ show_int n @ ''||'')"
    by (simp add: getProposalHash_def arg_def getOldHash_def js_or_def js_join4)
next
  show "getProposalHash S [JStr a, JNum n] = Some (a @ ''|'' @ show_int n @ ''||'')"
    by (simp add: getProposalHash_def arg_def getOldHash_def js_or_def js_join4)
qed

theorem getProposalHash_forms_witness:
  "equal_up_to_key_order
     (JObj [(''toAddress'', JStr ''addr''), (''amount'', JNum 1500)])
     (JObj [(''amount'', JNum 1500), (''toAddress'', JStr ''addr'')])
   \<and> getProposalHash stable_stringify
       [JObj [(''toAddress'', JStr ''addr''), (''amount'', JNum 1500)]]
     = getProposalHash stable_stringify
         [JObj [(''amount'', JNum 1500), (''toAddress'', JStr ''addr'')]]
   \<and> getProposalHash stable_stringify
       [JObj [(''amount'', JNum 1500), (''toAddress'', JStr ''addr'')]]
     = Some (''{'' @ quoted ''amount'' @ '':1500,'' @ quoted ''toAddress'' @ '':''
             @ quoted ''addr'' @ ''}'')"
proof -
  let ?h = "JObj [(''toAddress'', JStr ''addr''), (''amount'', JNum 1500)]"
  let ?k = "JObj [(''amount'', JNum 1500), (''toAddress'', JStr ''addr'')]"
  have e: "equal_up_to_key_order ?h ?k"
    by (auto simp: equal_up_to_key_order_def)
  have v: "getProposalHash stable_stringify [?k]
     = Some (''{'' @ quoted ''amount'' @ '':1500,'' @ quoted ''toAddress'' @ '':''
             @ quoted ''addr'' @ ''}'')"
    by code_simp
  from getProposalHash_forms [of stable_stringify _ ?h ?k] stable_stringify_key_order e
  have "getProposalHash stable_stringify [?h] = getProposalHash stable_stringify [?k]"
    by blast
  with e v show ?thesis by blast
qed

section \<open>Properties of formatAmount\<close>

text \<open>
  The examples of the specification: a unit of \<open>10^8\<close> satoshis that shows between
  two and eight decimals.
\<close>

lemma formatAmount_examples:
  "formatAmount up (ex_units 8 2) 123456789 ''BTC'' None = Inr ''1.23456789''"
  "formatAmount up (ex_units 8 2) 100000000 ''BTC'' None = Inr ''1.00''"
  "formatAmount up (ex_units 6 2) 1234567899999 ''BTC'' None = Inr ''12,345.678999''"
  "formatAmount up (ex_units 6 2) 1234567899999 ''bit'' None = Inr ''12,345,678,999''"
  "formatAmount up (ex_units 6 2) 1 ''BTC'' None = Inr ''0.00''"
  "formatAmount up (ex_units 6 2) 5 ''satoshi'' None = Inl ArgumentError"
  by code_simp+

text \<open>
  C9: formatAmount is to cut the decimals of the amount after the greatest number of
  decimals of the unit, without rounding. It does so for amounts that JavaScript
  prints in plain notation. An amount below a millionth of the unit is printed with an
  exponent, and what \<^verbatim>\<open>clipDecimals\<close> cuts then are the characters of the mantissa
  and of the exponent: 99 satoshis, that is 0.00000099 of a unit of \<open>10^8\<close> satoshis,
  shown with at most six decimals, come out rounded up to 0.000001 where cutting gives
  0.000000, shown as 0.00 (as 1 satoshi is).
\<close>

theorem formatAmount_rounds_small_amount:
  "formatAmount up (ex_units 6 2) 99 ''BTC'' None = Inr ''0.000001''
   \<and> number_toString (99, 8) = ''9.9e-7''
   \<and> clipDecimals (99, 8) 6 = Some (99, 8)
   \<and> toFixed up (Some (99, 8)) 6 = ''0.000001''"
  by code_simp

end
